theory Spec2Isabelle
  imports Main "HOL-Library.Word"
begin

section \<open>Go values, errors and run-time faults\<close>

text \<open>
  Go's fixed-width integers are words, so that \<open>+\<close> and \<open>-\<close> wrap as they do in Go and a
  conversion between widths is \<open>ucast\<close>. Go's \<open>int\<close> is taken at 64 bits.
  A Go string is a byte sequence: \<open>string\<close>.
\<close>

type_synonym int64 = "64 word"
type_synonym uint64 = "64 word"
type_synonym uint32 = "32 word"
type_synonym goint = "64 word"

text \<open>
  Every error value the modelled functions build, and one constructor for an error handed
  back by a collaborator that is not part of this code (the resource store, the operating
  system, \<open>strconv\<close>).
\<close>

datatype error =
    ErrNoMatchFound
  | ErrTooManyMatches string
  | ErrSignatureNotFound
  | ErrMagicMismatch nat
  | ErrOffsetTooSmall nat
  | ErrOffsetBeyondLength nat nat
  | ErrNonDeviceEvent
  | ErrInvalidAction string
  | ErrVolumePublished
  | ErrExternal string

text \<open>The run-time faults (Go panics) the modelled code can raise.\<close>

datatype panic = NilMapAssignment | IndexOutOfRange

text \<open>
  A call returns a value, returns an error, or faults. \<open>Panic\<close> is not an error return:
  it unwinds the goroutine.
\<close>

datatype 'a result = Ok 'a | Err error | Panic panic

text \<open>
  A Go map variable is \<open>nil\<close> until it is made. Reading a nil map gives the zero value;
  assigning into it faults.
\<close>

type_synonym ('k, 'v) gomap = "('k \<rightharpoonup> 'v) option"

definition map_assign :: "('k, 'v) gomap \<Rightarrow> 'k \<Rightarrow> 'v \<Rightarrow> ('k, 'v) gomap result" where
  "map_assign m k v = (case m of None \<Rightarrow> Panic NilMapAssignment | Some f \<Rightarrow> Ok (Some (f(k \<mapsto> v))))"

text \<open>\<open>m[k]\<close> on a \<open>map[string]string\<close> that was made: the empty string for a missing key.\<close>

definition map_get :: "(string \<rightharpoonup> string) \<Rightarrow> string \<Rightarrow> string" where
  "map_get m k = (case m k of None \<Rightarrow> [] | Some v \<Rightarrow> v)"

section \<open>Data model: Device, Drive, Volume\<close>

text \<open>
  \<open>sys.Device\<close>, with the fields the modelled functions read. Its declaration is not part
  of the sources at hand; the field types are the ones the conversions in
  \<open>update\<close> and \<open>syncDriveStates\<close> require.
\<close>

record device =
  dev_Name :: string
  dev_Major :: goint
  dev_Minor :: goint
  dev_Size :: uint64
  dev_FreeCapacity :: uint64
  dev_LogicalBlockSize :: uint64
  dev_PhysicalBlockSize :: uint64
  dev_Partition :: goint
  dev_Model :: string
  dev_Serial :: string
  dev_UeventSerial :: string
  dev_WWID :: string
  dev_Vendor :: string
  dev_DMName :: string
  dev_DMUUID :: string
  dev_MDUUID :: string
  dev_PTUUID :: string
  dev_PTType :: string
  dev_PartUUID :: string
  dev_FSType :: string
  dev_FSUUID :: string
  dev_UeventFSUUID :: string
  dev_Virtual :: bool
  dev_ReadOnly :: bool
  dev_Partitioned :: bool
  dev_SwapOn :: bool
  dev_Master :: string
  dev_FirstMountPoint :: string
  dev_FirstMountOptions :: "string list"
  dev_MountPoints :: "string list"

text \<open>
  \<open>DriveStatus\<close> is a string type in Go with five named values; \<open>OtherStatus\<close> stands for
  any other string, which the \<open>switch\<close> statements of \<open>update\<close> send to their default
  branch.
\<close>

datatype DriveStatus =
    DriveStatusAvailable
  | DriveStatusUnavailable
  | DriveStatusInUse
  | DriveStatusReady
  | DriveStatusTerminating
  | OtherStatus string

text \<open>
  \<open>DirectCSIDrive\<close>: the object's name, finalizers and labels, and the fields of its
  \<open>Status\<close> (under their Go names).
\<close>

record drive =
  Name :: string
  Finalizers :: "string list"
  Labels :: "(string, string) gomap"
  Path :: string
  NodeName :: string
  Topology :: "(string, string) gomap"
  DriveStatus :: DriveStatus
  TotalCapacity :: int64
  AllocatedCapacity :: int64
  FreeCapacity :: int64
  LogicalBlockSize :: int64
  PhysicalBlockSize :: int64
  MajorNumber :: uint32
  MinorNumber :: uint32
  PartitionNum :: goint
  RootPartition :: string
  ModelNumber :: string
  SerialNumber :: string
  UeventSerial :: string
  WWID :: string
  Vendor :: string
  DMName :: string
  DMUUID :: string
  MDUUID :: string
  PartTableUUID :: string
  PartTableType :: string
  PartitionUUID :: string
  Filesystem :: string
  FilesystemUUID :: string
  UeventFSUUID :: string
  Virtual :: bool
  ReadOnly :: bool
  Partitioned :: bool
  SwapOn :: bool
  Master :: string
  Mountpoint :: string
  MountOptions :: "string list"

section \<open>Identity matcher (pkg/uevent/match.go)\<close>

text \<open>
  A matcher returns \<open>(match, consider, err)\<close>; \<open>err\<close> is always \<open>nil\<close>.
  \<open>getMatchingDrives\<close> reads the pair as a three-way outcome: \<open>consider\<close> set means
  "go on to the next matcher"; otherwise the matcher has decided, for or against.
\<close>

type_synonym matchFn = "device \<Rightarrow> drive \<Rightarrow> bool \<times> bool \<times> error option"

datatype MatchOutcome = Match | NoMatch | Inconclusive

fun outcome :: "bool \<times> bool \<times> error option \<Rightarrow> MatchOutcome" where
  "outcome (match, consider, err) = (if consider then Inconclusive else if match then Match else NoMatch)"

definition immutablePropertyMatcher :: "string \<Rightarrow> string \<Rightarrow> bool \<times> bool \<times> error option" where
  "immutablePropertyMatcher alpha beta =
     (if alpha = [] \<and> beta = [] then (False, True, None)
      else if alpha = [] \<and> beta \<noteq> [] then (False, False, None)
      else if alpha \<noteq> [] \<and> beta = [] then (False, True, None)
      else if alpha \<noteq> [] \<and> beta \<noteq> [] then
        (if alpha = beta then (True, False, None) else (False, False, None))
      else (False, False, None))"

definition fsPropertyMatcher :: "string \<Rightarrow> string \<Rightarrow> bool \<times> bool \<times> error option" where
  "fsPropertyMatcher alpha beta =
     (if alpha = [] \<and> beta = [] then (False, True, None)
      else if alpha = [] \<and> beta \<noteq> [] then (False, True, None)
      else if alpha \<noteq> [] \<and> beta = [] then (False, True, None)
      else if alpha \<noteq> [] \<and> beta \<noteq> [] then
        (if alpha = beta then (True, False, None) else (False, True, None))
      else (False, False, None))"

definition sizeMatcher :: "int64 \<Rightarrow> int64 \<Rightarrow> bool \<times> bool \<times> error option" where
  "sizeMatcher alpha beta =
     (if alpha = 0 \<and> beta = 0 then (False, True, None)
      else if alpha = 0 \<and> beta \<noteq> 0 then (False, True, None)
      else if alpha \<noteq> 0 \<and> beta = 0 then (False, True, None)
      else if alpha \<noteq> 0 \<and> beta \<noteq> 0 then
        (if alpha = beta then (True, False, None) else (False, True, None))
      else (False, False, None))"

definition partitionNumberMatcher :: matchFn where
  "partitionNumberMatcher device drive = (PartitionNum drive = dev_Partition device, False, None)"

definition ueventSerialNumberMatcher :: matchFn where
  "ueventSerialNumberMatcher device drive =
     immutablePropertyMatcher (dev_UeventSerial device) (UeventSerial drive)"

definition wwidMatcher :: matchFn where
  "wwidMatcher device drive = immutablePropertyMatcher (dev_WWID device) (WWID drive)"

definition modelNumberMatcher :: matchFn where
  "modelNumberMatcher device drive = immutablePropertyMatcher (dev_Model device) (ModelNumber drive)"

definition vendorMatcher :: matchFn where
  "vendorMatcher device drive = immutablePropertyMatcher (dev_Vendor device) (Vendor drive)"

definition partitionUUIDMatcher :: matchFn where
  "partitionUUIDMatcher device drive =
     immutablePropertyMatcher (dev_PartUUID device) (PartitionUUID drive)"

definition dmUUIDMatcher :: matchFn where
  "dmUUIDMatcher device drive = immutablePropertyMatcher (dev_DMUUID device) (DMUUID drive)"

definition mdUUIDMatcher :: matchFn where
  "mdUUIDMatcher device drive = immutablePropertyMatcher (dev_MDUUID device) (MDUUID drive)"

definition serialNumberMatcher :: matchFn where
  "serialNumberMatcher device drive =
     immutablePropertyMatcher (dev_Serial device) (SerialNumber drive)"

definition ueventFSUUIDMatcher :: matchFn where
  "ueventFSUUIDMatcher device drive =
     fsPropertyMatcher (dev_UeventFSUUID device) (UeventFSUUID drive)"

definition fsUUIDMatcher :: matchFn where
  "fsUUIDMatcher device drive = fsPropertyMatcher (dev_FSUUID device) (FilesystemUUID drive)"

definition logicalBlocksizeMatcher :: matchFn where
  "logicalBlocksizeMatcher device drive =
     sizeMatcher (ucast (dev_LogicalBlockSize device)) (LogicalBlockSize drive)"

text \<open>The ordered matcher list, as the package variable \<open>matchers\<close> has it.\<close>

definition matchers :: "matchFn list" where
  "matchers =
     [partitionNumberMatcher,
      ueventSerialNumberMatcher,
      wwidMatcher,
      modelNumberMatcher,
      vendorMatcher,
      partitionUUIDMatcher,
      dmUUIDMatcher,
      mdUUIDMatcher,
      ueventFSUUIDMatcher,
      fsUUIDMatcher,
      serialNumberMatcher,
      logicalBlocksizeMatcher]"

text \<open>
  The inner loop of \<open>getMatchingDrives\<close> for one drive: the matchers in order, up to the
  first one that does not ask to go on. It carries \<open>matchedDrives\<close> and the drive's
  \<open>matchedFn\<close>.
\<close>

fun match_drive ::
  "matchFn list \<Rightarrow> device \<Rightarrow> drive \<Rightarrow> drive list \<times> matchFn list \<Rightarrow> drive list \<times> matchFn list" where
  "match_drive [] device drive (matchedDrives, matchedFn) = (matchedDrives, matchedFn)"
| "match_drive (matchFn # rest) device drive (matchedDrives, matchedFn) =
     (case matchFn device drive of
        (match, cont, err) \<Rightarrow>
          if cont then match_drive rest device drive (matchedDrives, matchedFn)
          else ((if match then matchedDrives @ [drive] else matchedDrives), matchedFn @ [matchFn]))"

text \<open>
  The outer loop. After the matchers have run for a drive, the drive's \<open>matchedFn\<close> is
  assigned into \<open>matchList\<close>. The drives are non-nil pointers in Go; the map is keyed by
  the pointer, here by the record.
\<close>

fun match_drives ::
  "matchFn list \<Rightarrow> device \<Rightarrow> drive list \<Rightarrow> drive list \<times> (drive, matchFn list) gomap
     \<Rightarrow> (drive list \<times> (drive, matchFn list) gomap) result" where
  "match_drives ms device [] (matchedDrives, matchList) = Ok (matchedDrives, matchList)"
| "match_drives ms device (drive # drives) (matchedDrives, matchList) =
     (case match_drive ms device drive (matchedDrives, []) of
        (matchedDrives', matchedFn) \<Rightarrow>
          (case map_assign matchList drive matchedFn of
             Panic p \<Rightarrow> Panic p
           | Err e \<Rightarrow> Err e
           | Ok matchList' \<Rightarrow> match_drives ms device drives (matchedDrives', matchList')))"

text \<open>
  \<open>getMatchingDrives\<close>: both results are named results, so they start at their zero
  values, the nil slice and the nil map, and nothing in the body makes the map.
\<close>

definition getMatchingDrives ::
  "device \<Rightarrow> drive list \<Rightarrow> (drive list \<times> (drive, matchFn list) gomap) result" where
  "getMatchingDrives device drives = match_drives matchers device drives ([], None)"

definition runMatcher :: "device \<Rightarrow> drive list \<Rightarrow> drive result" where
  "runMatcher device drives =
     (case getMatchingDrives device drives of
        Panic p \<Rightarrow> Panic p
      | Err e \<Rightarrow> Err e
      | Ok (matchedDrives, matchList) \<Rightarrow>
          (if length matchedDrives = 1 then Ok (matchedDrives ! 0)
           else if length matchedDrives = 0 then Err ErrNoMatchFound
           else Err (ErrTooManyMatches (dev_Name device))))"


section \<open>Wire decoder and listener (pkg/uevent/listener.go)\<close>

definition libudev :: string where
  "libudev = ''libudev'' @ [CHR 0x00]"

definition libudevMagic :: nat where
  "libudevMagic = 0xfeedcafe"

text \<open>\<open>minMsgLen\<close> is declared beside the other constants; no function refers to it.\<close>

definition minMsgLen :: nat where
  "minMsgLen = 40"

definition action_add :: string where "action_add = ''add''"
definition action_change :: string where "action_change = ''change''"
definition action_remove :: string where "action_remove = ''remove''"

text \<open>\<open>bytes.HasPrefix\<close>.\<close>

definition HasPrefix :: "string \<Rightarrow> string \<Rightarrow> bool" where
  "HasPrefix s pre = (length pre \<le> length s \<and> take (length pre) s = pre)"

text \<open>
  \<open>binary.BigEndian.Uint32\<close>: it reads \<open>b[3]\<close> first, which faults on a slice of fewer
  than four bytes.
\<close>

definition BigEndian_Uint32 :: "string \<Rightarrow> nat result" where
  "BigEndian_Uint32 b =
     (if length b \<le> 3 then Panic IndexOutOfRange
      else Ok (of_char (b ! 3) + 256 * of_char (b ! 2) + 65536 * of_char (b ! 1)
               + 16777216 * of_char (b ! 0)))"

text \<open>\<open>bytes.Split\<close> with a one-byte separator: every piece between separators, empty ones too.\<close>

fun split_on :: "char \<Rightarrow> string \<Rightarrow> string list" where
  "split_on sep [] = [[]]"
| "split_on sep (c # cs) =
     (if c = sep then [] # split_on sep cs
      else (case split_on sep cs of [] \<Rightarrow> [[c]] | f # fs \<Rightarrow> (c # f) # fs))"

text \<open>\<open>strings.SplitN(field, "=", 2)\<close>: cut at the first \<open>=\<close>, if there is one.\<close>

definition SplitN2 :: "string \<Rightarrow> string list" where
  "SplitN2 s =
     (if CHR ''='' \<in> set s
      then [takeWhile (\<lambda>c. c \<noteq> CHR ''='') s, tl (dropWhile (\<lambda>c. c \<noteq> CHR ''='') s)]
      else [s])"

text \<open>The loop over the fields of the payload; a later token for a key replaces the earlier.\<close>

fun parse_fields :: "string list \<Rightarrow> (string \<rightharpoonup> string) \<Rightarrow> (string \<rightharpoonup> string)" where
  "parse_fields [] event = event"
| "parse_fields (fld # flds) event =
     (if length fld = 0 then parse_fields flds event
      else (case SplitN2 fld of
              [k] \<Rightarrow> parse_fields flds (event(k \<mapsto> []))
            | [k, v] \<Rightarrow> parse_fields flds (event(k \<mapsto> v))
            | _ \<Rightarrow> parse_fields flds event))"

text \<open>
  \<open>parse\<close>. After the signature test the message has at least eight bytes, so \<open>msg[8:]\<close>
  is in range; \<open>Uint32\<close> of it and the index \<open>msg[16]\<close> are bounds-checked by the Go
  run time only.
\<close>

definition parse :: "string \<Rightarrow> (string \<rightharpoonup> string) result" where
  "parse msg =
     (if \<not> HasPrefix msg libudev then Err ErrSignatureNotFound
      else (case BigEndian_Uint32 (drop 8 msg) of
              Panic p \<Rightarrow> Panic p
            | Err e \<Rightarrow> Err e
            | Ok magic \<Rightarrow>
                if magic \<noteq> libudevMagic then Err (ErrMagicMismatch magic)
                else if length msg \<le> 16 then Panic IndexOutOfRange
                else (let offset = (of_char (msg ! 16) :: nat) in
                      if offset < 17 then Err (ErrOffsetTooSmall offset)
                      else if offset > length msg then Err (ErrOffsetBeyondLength offset (length msg))
                      else Ok (parse_fields (split_on (CHR 0x00) (drop offset msg)) Map.empty))))"

text \<open>
  What \<open>parseUdevData\<close> calls outside this package: \<open>strconv.Atoi\<close> and the two
  constructors of package \<open>udev\<close>, whose result type is \<open>'u\<close>. The last branch of its
  \<open>switch\<close> formats a variable \<open>action\<close> that the function does not declare; it is read
  as the event's \<open>ACTION\<close> value, which the \<open>switch\<close> is on.
\<close>

record 'u udev_env =
  Atoi :: "string \<Rightarrow> goint result"
  ReadRunUdevData :: "goint \<Rightarrow> goint \<Rightarrow> 'u result"
  EventMapToUdevData :: "(string \<rightharpoonup> string) \<Rightarrow> 'u result"

definition listener_parseUdevData :: "'u udev_env \<Rightarrow> string \<Rightarrow> 'u result" where
  "listener_parseUdevData env buf =
     (case parse buf of
        Panic p \<Rightarrow> Panic p
      | Err e \<Rightarrow> Err e
      | Ok eventMap \<Rightarrow>
          if map_get eventMap ''SUBSYSTEM'' = ''block'' then Err ErrNonDeviceEvent
          else (let action = map_get eventMap ''ACTION'' in
                if action = action_add \<or> action = action_change then
                  (case Atoi env (map_get eventMap ''MAJOR'') of
                     Panic p \<Rightarrow> Panic p
                   | Err e \<Rightarrow> Err e
                   | Ok major \<Rightarrow>
                       (case Atoi env (map_get eventMap ''MINOR'') of
                          Panic p \<Rightarrow> Panic p
                        | Err e \<Rightarrow> Err e
                        | Ok minor \<Rightarrow> ReadRunUdevData env major minor))
                else if action = action_remove then EventMapToUdevData env eventMap
                else Err (ErrInvalidAction action)))"

text \<open>
  The read loop of \<open>getNextDeviceUEvent\<close>, over the results the next calls of
  \<open>ReadMsg\<close> will give. It returns what the loop returns together with the reads left
  over; \<open>None\<close> when every pending read was skipped and the loop is blocked in
  \<open>ReadMsg\<close>.
\<close>

fun listener_getNextDeviceUEvent ::
  "'u udev_env \<Rightarrow> string result list \<Rightarrow> ('u result \<times> string result list) option" where
  "listener_getNextDeviceUEvent env [] = None"
| "listener_getNextDeviceUEvent env (r # reads) =
     (case r of
        Panic p \<Rightarrow> Some (Panic p, reads)
      | Err e \<Rightarrow> Some (Err e, reads)
      | Ok buf \<Rightarrow>
          (case listener_parseUdevData env buf of
             Panic p \<Rightarrow> Some (Panic p, reads)
           | Err e \<Rightarrow>
               if e = ErrNonDeviceEvent then listener_getNextDeviceUEvent env reads
               else Some (Err e, reads)
           | Ok udevData \<Rightarrow> Some (Ok udevData, reads)))"

text \<open>
  \<open>normalizeUUID\<close>. \<open>strings.ReplaceAll(s, x, "")\<close> for a one-byte \<open>x\<close> drops every
  such byte; the slices \<open>u[:8]\<close> ... \<open>u[20:]\<close> are in range because \<open>len(u) > 20\<close>.
\<close>

definition strip_separators :: "string \<Rightarrow> string" where
  "strip_separators uuid = filter (\<lambda>c. c \<noteq> CHR ''-'') (filter (\<lambda>c. c \<noteq> CHR '':'') uuid)"

definition normalizeUUID :: "string \<Rightarrow> string" where
  "normalizeUUID uuid =
     (let u = strip_separators uuid in
      if length u > 20
      then take 8 u @ ''-'' @ take 4 (drop 8 u) @ ''-'' @ take 4 (drop 12 u) @ ''-''
           @ take 4 (drop 16 u) @ ''-'' @ drop 20 u
      else uuid)"


section \<open>Volumes, the resource store and the environment\<close>

text \<open>\<open>metav1.Condition\<close> (type and status) and \<open>DirectCSIVolume\<close>.\<close>

record condition =
  cond_Type :: string
  cond_Status :: string

definition ConditionTrue :: string where
  "ConditionTrue = ''True''"

text \<open>
  The deletion timestamp is a pointer to a time: \<open>None\<close> is nil, and a time is counted
  from the zero instant, so \<open>IsZero\<close> holds of nil and of \<open>0\<close>.
\<close>

record volume =
  vol_Name :: string
  vol_Finalizers :: "string list"
  vol_DeletionTimestamp :: "int option"
  vol_Drive :: string
  vol_HostPath :: string
  vol_TotalCapacity :: int64
  vol_Conditions :: "condition list"

definition IsZero :: "int option \<Rightarrow> bool" where
  "IsZero t = (case t of None \<Rightarrow> True | Some i \<Rightarrow> i = 0)"

text \<open>
  What the modelled functions use and the sources at hand do not hold: the constants of
  the API package, the helpers of packages \<open>sys\<close>, \<open>utils\<close> and \<open>client\<close>, the
  standard library's \<open>strings.ToLower\<close>, \<open>filepath.Join\<close> and \<open>os.RemoveAll\<close>, and the
  answers of the resource store (a fault is the error a call comes back with, a write
  conflict for one). They are parameters of the model.
\<close>

record env =
  DirectCSIDriveFinalizerPrefix :: string
  DirectCSIDriveFinalizerDataProtection :: string
  DirectCSIVolumeFinalizerPurgeProtection :: string
  DirectCSIVolumeConditionPublished :: string
  DriveLabelKey :: string
  MountRoot :: string
  MinSupportedDeviceSize :: uint64
  FSTypeEqual :: "string \<Rightarrow> string \<Rightarrow> bool"
  ToLower :: "string \<Rightarrow> string"
  SanitizeDrivePath :: "string \<Rightarrow> string"
  filepath_Join :: "string \<Rightarrow> string \<Rightarrow> string"
  NewDriveStatus :: "device \<Rightarrow> DriveStatus"
  UpdateLabels :: "(string, string) gomap \<Rightarrow> string \<Rightarrow> string \<Rightarrow> (string, string) gomap"
  RemoveAll :: "string \<Rightarrow> string set \<Rightarrow> error + string set"
  DriveGetFault :: "string \<Rightarrow> error option"
  DriveUpdateFault :: "drive \<Rightarrow> error option"
  VolumeUpdateFault :: "volume \<Rightarrow> error option"

text \<open>
  The state outside the process: the Drive and Volume records of the store by name, the
  paths present on the host, and the \<open>Update\<close> calls issued so far, in order.
\<close>

datatype store_call = DriveUpdate drive | VolumeUpdate volume

record cluster =
  cl_drives :: "string \<rightharpoonup> drive"
  cl_volumes :: "string \<rightharpoonup> volume"
  cl_hostfs :: "string set"
  cl_calls :: "store_call list"

text \<open>
  Modelled from the spec: the client of the resource store is not in the sources at hand.
  Section 6 gives \<open>Get\<close> and \<open>Update\<close> per record type, \<open>Update\<close> reporting a conflict
  as an error. \<open>Get\<close> answers with the stored record of that name or an error;
  \<open>Update\<close> is logged, and replaces the record of the object's name unless the store
  refuses it.
\<close>

definition Drives_Get :: "env \<Rightarrow> cluster \<Rightarrow> string \<Rightarrow> error + drive" where
  "Drives_Get env c name =
     (case DriveGetFault env name of
        Some e \<Rightarrow> Inl e
      | None \<Rightarrow> (case cl_drives c name of None \<Rightarrow> Inl (ErrExternal ''not found'') | Some d \<Rightarrow> Inr d))"

definition Drives_Update :: "env \<Rightarrow> cluster \<Rightarrow> drive \<Rightarrow> error option \<times> cluster" where
  "Drives_Update env c d =
     (let c' = c\<lparr>cl_calls := cl_calls c @ [DriveUpdate d]\<rparr> in
      case DriveUpdateFault env d of
        Some e \<Rightarrow> (Some e, c')
      | None \<Rightarrow> (None, c'\<lparr>cl_drives := (cl_drives c')(Name d \<mapsto> d)\<rparr>))"

definition Volumes_Update :: "env \<Rightarrow> cluster \<Rightarrow> volume \<Rightarrow> error option \<times> cluster" where
  "Volumes_Update env c v =
     (let c' = c\<lparr>cl_calls := cl_calls c @ [VolumeUpdate v]\<rparr> in
      case VolumeUpdateFault env v of
        Some e \<Rightarrow> (Some e, c')
      | None \<Rightarrow> (None, c'\<lparr>cl_volumes := (cl_volumes c')(vol_Name v \<mapsto> v)\<rparr>))"

section \<open>Volume teardown (pkg/volume/volume.go)\<close>

text \<open>The loop of \<open>excludeFinalizer\<close>, carrying its two named results.\<close>

fun excludeFinalizer_loop :: "string list \<Rightarrow> string \<Rightarrow> string list \<times> bool \<Rightarrow> string list \<times> bool" where
  "excludeFinalizer_loop [] finalizer (result, found) = (result, found)"
| "excludeFinalizer_loop (f # fs) finalizer (result, found) =
     (if f \<noteq> finalizer then excludeFinalizer_loop fs finalizer (result @ [f], found)
      else excludeFinalizer_loop fs finalizer (result, True))"

definition excludeFinalizer :: "string list \<Rightarrow> string \<Rightarrow> string list \<times> bool" where
  "excludeFinalizer finalizers finalizer = excludeFinalizer_loop finalizers finalizer ([], False)"

text \<open>
  \<open>releaseVolume\<close> returns the error (\<open>None\<close> is nil) and leaves the cluster as its calls
  made it.
\<close>

definition VolumeEventHandler_releaseVolume ::
  "env \<Rightarrow> cluster \<Rightarrow> string \<Rightarrow> string \<Rightarrow> int64 \<Rightarrow> error option \<times> cluster" where
  "VolumeEventHandler_releaseVolume env c driveName volumeName capacity =
     (case Drives_Get env c driveName of
        Inl err \<Rightarrow> (Some err, c)
      | Inr drive \<Rightarrow>
          (case excludeFinalizer (Finalizers drive) (DirectCSIDriveFinalizerPrefix env @ volumeName) of
             (finalizers, found) \<Rightarrow>
               if found then
                 (let drive1 =
                        (if length finalizers = 1 then
                           (if finalizers ! 0 = DirectCSIDriveFinalizerDataProtection env
                            then drive\<lparr>DriveStatus := DriveStatusReady\<rparr> else drive)
                         else drive);
                      drive2 = drive1\<lparr>Finalizers := finalizers\<rparr>;
                      drive3 = drive2\<lparr>FreeCapacity := FreeCapacity drive2 + capacity\<rparr>;
                      drive4 = drive3\<lparr>AllocatedCapacity := TotalCapacity drive3 - FreeCapacity drive3\<rparr>
                  in Drives_Update env c drive4)
               else (None, c)))"

definition VolumeEventHandler_remove :: "env \<Rightarrow> cluster \<Rightarrow> volume \<Rightarrow> error option \<times> cluster" where
  "VolumeEventHandler_remove env c volume =
     (if IsZero (vol_DeletionTimestamp volume) then (None, c)
      else if list_ex (\<lambda>condition. cond_Type condition = DirectCSIVolumeConditionPublished env
                                  \<and> cond_Status condition = ConditionTrue) (vol_Conditions volume)
      then (Some ErrVolumePublished, c)
      else (case RemoveAll env (vol_HostPath volume) (cl_hostfs c) of
              Inl err \<Rightarrow> (Some err, c)
            | Inr fs \<Rightarrow>
                (case VolumeEventHandler_releaseVolume env (c\<lparr>cl_hostfs := fs\<rparr>)
                        (vol_Drive volume) (vol_Name volume) (vol_TotalCapacity volume) of
                   (Some err, c1) \<Rightarrow> (Some err, c1)
                 | (None, c1) \<Rightarrow>
                     (case excludeFinalizer (vol_Finalizers volume)
                             (DirectCSIVolumeFinalizerPurgeProtection env) of
                        (finalizers, found) \<Rightarrow>
                          Volumes_Update env c1 (volume\<lparr>vol_Finalizers := finalizers\<rparr>)))))"

section \<open>Drive reconciliation (pkg/node)\<close>

definition isDOSPTType :: "string \<Rightarrow> bool" where
  "isDOSPTType ptType = (ptType = ''dos'' \<or> ptType = ''msdos'' \<or> ptType = ''mbr'')"

definition ptTypeEqual :: "env \<Rightarrow> string \<Rightarrow> string \<Rightarrow> bool" where
  "ptTypeEqual env ptType1 ptType2 =
     (let p1 = ToLower env ptType1; p2 = ToLower env ptType2 in
      if p1 = p2 then True
      else if isDOSPTType p1 \<and> isDOSPTType p2 then True
      else False)"

text \<open>The drive being reconciled and the three flags of \<open>update\<close>.\<close>

record update_state =
  drv :: drive
  updated :: bool
  nameChanged :: bool
  fsUUIDChanged :: bool

definition active_status :: "DriveStatus \<Rightarrow> bool" where
  "active_status st = (st = DriveStatusInUse \<or> st = DriveStatusReady \<or> st = DriveStatusTerminating)"

text \<open>
  The field-by-field part of \<open>update\<close>: one entry for each \<open>if\<close> block, in the order of
  the source. \<open>int64(x)\<close> of an unsigned 64-bit value keeps the bits; \<open>uint32(x)\<close> keeps
  the low 32. The comparison of the capacities is signed.
\<close>

definition field_steps :: "(env \<Rightarrow> device \<Rightarrow> update_state \<Rightarrow> update_state) list" where
  "field_steps =
    [(\<lambda>env device s.
        if \<not> FSTypeEqual env (Filesystem (drv s)) (dev_FSType device)
        then s\<lparr>drv := (drv s)\<lparr>Filesystem := dev_FSType device\<rparr>, updated := True\<rparr> else s),
     (\<lambda>env device s.
        if TotalCapacity (drv s) \<noteq> ucast (dev_Size device) then
          (let d1 = (drv s)\<lparr>TotalCapacity := ucast (dev_Size device)\<rparr>;
               d2 = (if sint (TotalCapacity d1) < sint (AllocatedCapacity d1)
                     then d1\<lparr>AllocatedCapacity := TotalCapacity d1\<rparr> else d1);
               d3 = d2\<lparr>FreeCapacity := TotalCapacity d2 - AllocatedCapacity d2\<rparr>
           in s\<lparr>drv := d3, updated := True\<rparr>)
        else s),
     (\<lambda>env device s.
        if LogicalBlockSize (drv s) \<noteq> ucast (dev_LogicalBlockSize device)
        then s\<lparr>drv := (drv s)\<lparr>LogicalBlockSize := ucast (dev_LogicalBlockSize device)\<rparr>, updated := True\<rparr>
        else s),
     (\<lambda>env device s.
        if ModelNumber (drv s) \<noteq> dev_Model device
        then s\<lparr>drv := (drv s)\<lparr>ModelNumber := dev_Model device\<rparr>, updated := True\<rparr> else s),
     (\<lambda>env device s.
        if PartitionNum (drv s) \<noteq> dev_Partition device
        then s\<lparr>drv := (drv s)\<lparr>PartitionNum := dev_Partition device\<rparr>, updated := True\<rparr> else s),
     (\<lambda>env device s.
        if Path (drv s) \<noteq> ''/dev/'' @ dev_Name device then
          (let d1 = (drv s)\<lparr>Path := ''/dev/'' @ dev_Name device\<rparr>;
               labels = (case Labels d1 of None \<Rightarrow> Map.empty | Some m \<Rightarrow> m);
               d2 = d1\<lparr>Labels := Some (labels(DriveLabelKey env \<mapsto> SanitizeDrivePath env (dev_Name device)))\<rparr>
           in s\<lparr>drv := d2, nameChanged := True, updated := True\<rparr>)
        else s),
     (\<lambda>env device s.
        if PhysicalBlockSize (drv s) \<noteq> ucast (dev_PhysicalBlockSize device)
        then s\<lparr>drv := (drv s)\<lparr>PhysicalBlockSize := ucast (dev_PhysicalBlockSize device)\<rparr>, updated := True\<rparr>
        else s),
     (\<lambda>env device s.
        if RootPartition (drv s) \<noteq> dev_Name device
        then s\<lparr>drv := (drv s)\<lparr>RootPartition := dev_Name device\<rparr>, updated := True\<rparr> else s),
     (\<lambda>env device s.
        if SerialNumber (drv s) \<noteq> dev_Serial device
        then s\<lparr>drv := (drv s)\<lparr>SerialNumber := dev_Serial device\<rparr>, updated := True\<rparr> else s),
     (\<lambda>env device s.
        if FilesystemUUID (drv s) \<noteq> dev_FSUUID device
        then s\<lparr>drv := (drv s)\<lparr>FilesystemUUID := dev_FSUUID device\<rparr>, updated := True,
               fsUUIDChanged := True\<rparr>
        else s),
     (\<lambda>env device s.
        if PartitionUUID (drv s) \<noteq> dev_PartUUID device
        then s\<lparr>drv := (drv s)\<lparr>PartitionUUID := dev_PartUUID device\<rparr>, updated := True\<rparr> else s),
     (\<lambda>env device s.
        if MajorNumber (drv s) \<noteq> ucast (dev_Major device)
        then s\<lparr>drv := (drv s)\<lparr>MajorNumber := ucast (dev_Major device)\<rparr>, updated := True\<rparr> else s),
     (\<lambda>env device s.
        if MinorNumber (drv s) \<noteq> ucast (dev_Minor device)
        then s\<lparr>drv := (drv s)\<lparr>MinorNumber := ucast (dev_Minor device)\<rparr>, updated := True\<rparr> else s),
     (\<lambda>env device s.
        if UeventSerial (drv s) \<noteq> dev_UeventSerial device
        then s\<lparr>drv := (drv s)\<lparr>UeventSerial := dev_UeventSerial device\<rparr>, updated := True\<rparr> else s),
     (\<lambda>env device s.
        if UeventFSUUID (drv s) \<noteq> dev_UeventFSUUID device
        then s\<lparr>drv := (drv s)\<lparr>UeventFSUUID := dev_UeventFSUUID device\<rparr>, updated := True,
               fsUUIDChanged := True\<rparr>
        else s),
     (\<lambda>env device s.
        if WWID (drv s) \<noteq> dev_WWID device
        then s\<lparr>drv := (drv s)\<lparr>WWID := dev_WWID device\<rparr>, updated := True\<rparr> else s),
     (\<lambda>env device s.
        if Vendor (drv s) \<noteq> dev_Vendor device
        then s\<lparr>drv := (drv s)\<lparr>Vendor := dev_Vendor device\<rparr>, updated := True\<rparr> else s),
     (\<lambda>env device s.
        if DMName (drv s) \<noteq> dev_DMName device
        then s\<lparr>drv := (drv s)\<lparr>DMName := dev_DMName device\<rparr>, updated := True\<rparr> else s),
     (\<lambda>env device s.
        if DMUUID (drv s) \<noteq> dev_DMUUID device
        then s\<lparr>drv := (drv s)\<lparr>DMUUID := dev_DMUUID device\<rparr>, updated := True\<rparr> else s),
     (\<lambda>env device s.
        if MDUUID (drv s) \<noteq> dev_MDUUID device
        then s\<lparr>drv := (drv s)\<lparr>MDUUID := dev_MDUUID device\<rparr>, updated := True\<rparr> else s),
     (\<lambda>env device s.
        if PartTableUUID (drv s) \<noteq> dev_PTUUID device
        then s\<lparr>drv := (drv s)\<lparr>PartTableUUID := dev_PTUUID device\<rparr>, updated := True\<rparr> else s),
     (\<lambda>env device s.
        if \<not> ptTypeEqual env (PartTableType (drv s)) (dev_PTType device)
        then s\<lparr>drv := (drv s)\<lparr>PartTableType := dev_PTType device\<rparr>, updated := True\<rparr> else s),
     (\<lambda>env device s.
        if Virtual (drv s) \<noteq> dev_Virtual device
        then s\<lparr>drv := (drv s)\<lparr>Virtual := dev_Virtual device\<rparr>, updated := True\<rparr> else s),
     (\<lambda>env device s.
        if ReadOnly (drv s) \<noteq> dev_ReadOnly device
        then s\<lparr>drv := (drv s)\<lparr>ReadOnly := dev_ReadOnly device\<rparr>, updated := True\<rparr> else s),
     (\<lambda>env device s.
        if Partitioned (drv s) \<noteq> dev_Partitioned device
        then s\<lparr>drv := (drv s)\<lparr>Partitioned := dev_Partitioned device\<rparr>, updated := True\<rparr> else s),
     (\<lambda>env device s.
        if SwapOn (drv s) \<noteq> dev_SwapOn device
        then s\<lparr>drv := (drv s)\<lparr>SwapOn := dev_SwapOn device\<rparr>, updated := True\<rparr> else s),
     (\<lambda>env device s.
        if Master (drv s) \<noteq> dev_Master device
        then s\<lparr>drv := (drv s)\<lparr>Master := dev_Master device\<rparr>, updated := True\<rparr> else s)]"

text \<open>The first \<open>switch\<close> on the drive's status: the mount point.\<close>

definition sync_Mountpoint :: "env \<Rightarrow> device \<Rightarrow> update_state \<Rightarrow> update_state" where
  "sync_Mountpoint env device s =
     (if active_status (DriveStatus (drv s)) then
        (if fsUUIDChanged s then s
         else if dev_FirstMountPoint device \<noteq> [] \<and> Mountpoint (drv s) \<noteq> dev_FirstMountPoint device then
           (if dev_FirstMountPoint device \<noteq> filepath_Join env (MountRoot env) (FilesystemUUID (drv s))
            then s
            else s\<lparr>drv := (drv s)\<lparr>Mountpoint := dev_FirstMountPoint device,
                                   MountOptions := dev_FirstMountOptions device\<rparr>,
                   updated := True\<rparr>)
         else s)
      else if DriveStatus (drv s) = DriveStatusAvailable \<or> DriveStatus (drv s) = DriveStatusUnavailable then
        (if Mountpoint (drv s) \<noteq> dev_FirstMountPoint device
         then s\<lparr>drv := (drv s)\<lparr>Mountpoint := dev_FirstMountPoint device,
                                MountOptions := dev_FirstMountOptions device\<rparr>,
                updated := True\<rparr>
         else s)
      else s)"

text \<open>The second \<open>switch\<close>: the status recomputed from the device.\<close>

definition sync_DriveStatus :: "env \<Rightarrow> device \<Rightarrow> update_state \<Rightarrow> update_state" where
  "sync_DriveStatus env device s =
     (let driveStatus = NewDriveStatus env device in
      if driveStatus \<noteq> DriveStatus (drv s) then
        (if active_status (DriveStatus (drv s)) then s
         else s\<lparr>drv := (drv s)\<lparr>DriveStatus := driveStatus\<rparr>, updated := True\<rparr>)
      else s)"

text \<open>
  What \<open>update\<close> leaves behind: its error, the cluster, the drive object as mutated in
  place, and the label rewrites it started in the background, each a volume name with
  the label value to write.
\<close>

record update_result =
  ur_err :: "error option"
  ur_cluster :: cluster
  ur_drive :: drive
  ur_tasks :: "(string \<times> string) list"

definition driveEventHandler_update :: "env \<Rightarrow> cluster \<Rightarrow> device \<Rightarrow> drive \<Rightarrow> update_result" where
  "driveEventHandler_update env c device drive =
     (let s0 = \<lparr>drv = drive, updated = False, nameChanged = False, fsUUIDChanged = False\<rparr>;
          s1 = fold (\<lambda>step. step env device) field_steps s0;
          s2 = sync_Mountpoint env device s1;
          s3 = sync_DriveStatus env device s2
      in if \<not> updated s3 then \<lparr>ur_err = None, ur_cluster = c, ur_drive = drv s3, ur_tasks = []\<rparr>
         else (case Drives_Update env c (drv s3) of
                 (Some err, c1) \<Rightarrow> \<lparr>ur_err = Some err, ur_cluster = c1, ur_drive = drv s3, ur_tasks = []\<rparr>
               | (None, c1) \<Rightarrow>
                   if \<not> nameChanged s3
                   then \<lparr>ur_err = None, ur_cluster = c1, ur_drive = drv s3, ur_tasks = []\<rparr>
                   else \<lparr>ur_err = None, ur_cluster = c1, ur_drive = drv s3,
                         ur_tasks =
                           map (\<lambda>finalizer.
                                  (drop (length (DirectCSIDriveFinalizerPrefix env)) finalizer,
                                   SanitizeDrivePath env (Path (drv s3))))
                               (filter (\<lambda>finalizer. HasPrefix finalizer (DirectCSIDriveFinalizerPrefix env))
                                       (Finalizers (drv s3)))\<rparr>))"

text \<open>The handler's own fields, read by \<open>syncDriveStates\<close>.\<close>

record driveEventHandler =
  nodeID :: string
  topology :: "(string, string) gomap"

definition isDirectCSIMount :: "string list \<Rightarrow> bool" where
  "isDirectCSIMount mountPoints =
     (if length mountPoints = 0 then True
      else list_ex (\<lambda>mountPoint. HasPrefix mountPoint ''/var/lib/direct-csi/'') mountPoints)"

text \<open>
  Modelled from the spec: \<open>Device.DevPath\<close> is not in the sources at hand. Section 6: the
  drive path is always \<open>/dev/\<close> followed by the observed device name.
\<close>

definition DevPath :: "device \<Rightarrow> string" where
  "DevPath device = ''/dev/'' @ dev_Name device"

text \<open>\<open>syncDriveStates\<close>: the copy of the drive, synchronised with the device.\<close>

definition driveEventHandler_syncDriveStates :: "env \<Rightarrow> driveEventHandler \<Rightarrow> device \<Rightarrow> drive \<Rightarrow> drive" where
  "driveEventHandler_syncDriveStates env d device drive =
     (let u1 = drive\<lparr>
            Filesystem := dev_FSType device,
            LogicalBlockSize := ucast (dev_LogicalBlockSize device),
            MountOptions := dev_FirstMountOptions device,
            Mountpoint := dev_FirstMountPoint device,
            NodeName := nodeID d,
            PartitionNum := dev_Partition device,
            PhysicalBlockSize := ucast (dev_PhysicalBlockSize device),
            RootPartition := dev_Name device,
            FilesystemUUID := dev_FSUUID device,
            PartitionUUID := dev_PartUUID device,
            MajorNumber := ucast (dev_Major device),
            MinorNumber := ucast (dev_Minor device),
            Topology := topology d,
            UeventFSUUID := dev_UeventFSUUID device,
            DMName := dev_DMName device,
            DMUUID := dev_DMUUID device,
            MDUUID := dev_MDUUID device,
            PartTableUUID := dev_PTUUID device,
            PartTableType := dev_PTType device,
            Virtual := dev_Virtual device,
            ReadOnly := dev_ReadOnly device,
            Partitioned := dev_Partitioned device,
            SwapOn := dev_SwapOn device,
            Master := dev_Master device\<rparr>;
          u2 = (if ModelNumber u1 = [] then u1\<lparr>ModelNumber := dev_Model device\<rparr> else u1);
          u3 = (if SerialNumber u2 = [] then u2\<lparr>SerialNumber := dev_Serial device\<rparr> else u2);
          u4 = (if UeventSerial u3 = [] then u3\<lparr>UeventSerial := dev_UeventSerial device\<rparr> else u3);
          u5 = (if WWID u4 = [] then u4\<lparr>WWID := dev_WWID device\<rparr> else u4);
          u6 = (if Vendor u5 = [] then u5\<lparr>Vendor := dev_Vendor device\<rparr> else u5);
          u7 = u6\<lparr>DriveStatus :=
                    (if dev_Size device < MinSupportedDeviceSize env \<or> dev_ReadOnly device
                        \<or> dev_Partitioned device \<or> dev_SwapOn device \<or> dev_Master device \<noteq> []
                        \<or> \<not> isDirectCSIMount (dev_MountPoints device)
                     then DriveStatusUnavailable else DriveStatusAvailable)\<rparr>;
          u8 = u7\<lparr>Path := DevPath device,
                  Labels := UpdateLabels env (Labels u7) (DriveLabelKey env)
                              (SanitizeDrivePath env (dev_Name device))\<rparr>;
          u9 = u8\<lparr>TotalCapacity := ucast (dev_Size device)\<rparr>;
          u10 = (if DriveStatus u9 = DriveStatusInUse then u9
                 else u9\<lparr>AllocatedCapacity := ucast (dev_Size device - dev_FreeCapacity device)\<rparr>);
          u11 = u10\<lparr>FreeCapacity := TotalCapacity u10 - AllocatedCapacity u10\<rparr>
      in u11)"

section \<open>Concrete values\<close>

text \<open>
  The zero values of the structs, as a Go composite literal leaves the fields it does not
  name, and an environment for evaluating the model on concrete inputs.
\<close>

definition zero_device :: device where
  "zero_device = \<lparr>dev_Name = [], dev_Major = 0, dev_Minor = 0, dev_Size = 0, dev_FreeCapacity = 0,
     dev_LogicalBlockSize = 0, dev_PhysicalBlockSize = 0, dev_Partition = 0, dev_Model = [],
     dev_Serial = [], dev_UeventSerial = [], dev_WWID = [], dev_Vendor = [], dev_DMName = [],
     dev_DMUUID = [], dev_MDUUID = [], dev_PTUUID = [], dev_PTType = [], dev_PartUUID = [],
     dev_FSType = [], dev_FSUUID = [], dev_UeventFSUUID = [], dev_Virtual = False,
     dev_ReadOnly = False, dev_Partitioned = False, dev_SwapOn = False, dev_Master = [],
     dev_FirstMountPoint = [], dev_FirstMountOptions = [], dev_MountPoints = []\<rparr>"

definition zero_drive :: drive where
  "zero_drive = \<lparr>Name = [], Finalizers = [], Labels = None, Path = [], NodeName = [], Topology = None,
     DriveStatus = OtherStatus [], TotalCapacity = 0, AllocatedCapacity = 0, FreeCapacity = 0,
     LogicalBlockSize = 0, PhysicalBlockSize = 0, MajorNumber = 0, MinorNumber = 0,
     PartitionNum = 0, RootPartition = [], ModelNumber = [], SerialNumber = [],
     UeventSerial = [], WWID = [], Vendor = [], DMName = [], DMUUID = [], MDUUID = [],
     PartTableUUID = [], PartTableType = [], PartitionUUID = [], Filesystem = [],
     FilesystemUUID = [], UeventFSUUID = [], Virtual = False, ReadOnly = False,
     Partitioned = False, SwapOn = False, Master = [], Mountpoint = [], MountOptions = []\<rparr>"

definition empty_cluster :: cluster where
  "empty_cluster = \<lparr>cl_drives = Map.empty, cl_volumes = Map.empty, cl_hostfs = {}, cl_calls = []\<rparr>"

text \<open>
  An environment in which no collaborator fails: string equality for the two comparisons
  that normalise, the identity for the two string helpers, concatenation with a slash for
  \<open>filepath.Join\<close>, and a store that accepts every call.
\<close>

definition test_env :: env where
  "test_env = \<lparr>
     DirectCSIDriveFinalizerPrefix = ''direct.csi.min.io.volume/'',
     DirectCSIDriveFinalizerDataProtection = ''direct.csi.min.io/data-protection'',
     DirectCSIVolumeFinalizerPurgeProtection = ''direct.csi.min.io/purge-protection'',
     DirectCSIVolumeConditionPublished = ''Published'',
     DriveLabelKey = ''direct.csi.min.io/path'',
     MountRoot = ''/var/lib/direct-csi/mnt'',
     MinSupportedDeviceSize = 16777216,
     FSTypeEqual = (\<lambda>a b. a = b),
     ToLower = (\<lambda>a. a),
     SanitizeDrivePath = (\<lambda>a. a),
     filepath_Join = (\<lambda>a b. a @ ''/'' @ b),
     NewDriveStatus = (\<lambda>device. DriveStatusAvailable),
     UpdateLabels = (\<lambda>m k v. Some ((case m of None \<Rightarrow> Map.empty | Some f \<Rightarrow> f)(k \<mapsto> v))),
     RemoveAll = (\<lambda>p fs. Inr (fs - {p})),
     DriveGetFault = (\<lambda>name. None),
     DriveUpdateFault = (\<lambda>d. None),
     VolumeUpdateFault = (\<lambda>v. None)\<rparr>"

section \<open>Statements of the specification\<close>

text \<open>
  The decision table of section 4.4 of the specification, in its words: inconclusive when
  either value is empty, otherwise match or no-match by equality. \<open>alpha\<close> is the value the
  Drive records, \<open>beta\<close> the value the Device shows.
\<close>

definition spec_truth_table :: "string \<Rightarrow> string \<Rightarrow> MatchOutcome" where
  "spec_truth_table alpha beta =
     (if alpha = [] \<or> beta = [] then Inconclusive else if alpha = beta then Match else NoMatch)"

text \<open>
  The two tables the code documents above \<open>immutablePropertyMatcher\<close> and
  \<open>fsPropertyMatcher\<close>, by the recorded and the observed value: the first decides as soon
  as a value is recorded; the second never decides against.
\<close>

definition immutable_table :: "string \<Rightarrow> string \<Rightarrow> MatchOutcome" where
  "immutable_table recorded observed =
     (if recorded = [] then Inconclusive else if observed = recorded then Match else NoMatch)"

definition fs_table :: "string \<Rightarrow> string \<Rightarrow> MatchOutcome" where
  "fs_table recorded observed =
     (if recorded \<noteq> [] \<and> observed = recorded then Match else Inconclusive)"

text \<open>
  An already-normalized UUID in the words of section 8: 36 characters, a dash at each of
  the four canonical places, and no separator anywhere else.
\<close>

definition no_separator :: "string \<Rightarrow> bool" where
  "no_separator s = (CHR ''-'' \<notin> set s \<and> CHR '':'' \<notin> set s)"

definition canonical_uuid :: "string \<Rightarrow> bool" where
  "canonical_uuid s =
     (length s = 36 \<and> s ! 8 = CHR ''-'' \<and> s ! 13 = CHR ''-'' \<and> s ! 18 = CHR ''-'' \<and> s ! 23 = CHR ''-''
      \<and> no_separator (take 8 s) \<and> no_separator (take 4 (drop 9 s))
      \<and> no_separator (take 4 (drop 14 s)) \<and> no_separator (take 4 (drop 19 s))
      \<and> no_separator (drop 24 s))"

text \<open>
  The canonical 8-4-4-4-12 grouping of a value, in the words of sections 4.3 and 8: 36
  characters, a dash at each of the four canonical places, and between the dashes the
  value itself, in groups of 8, 4, 4, 4 and 12 characters.
\<close>

definition grouped_8_4_4_4_12 :: "string \<Rightarrow> string \<Rightarrow> bool" where
  "grouped_8_4_4_4_12 u out =
     (length out = 36 \<and> out ! 8 = CHR ''-'' \<and> out ! 13 = CHR ''-'' \<and> out ! 18 = CHR ''-''
      \<and> out ! 23 = CHR ''-''
      \<and> take 8 out @ take 4 (drop 9 out) @ take 4 (drop 14 out) @ take 4 (drop 19 out) @ drop 24 out = u)"

text \<open>
  The grouping \<open>normalizeUUID\<close> builds from a stripped value: a dash after the 8th, 12th,
  16th and 20th character.
\<close>

definition dashed :: "string \<Rightarrow> string" where
  "dashed u = take 8 u @ ''-'' @ take 4 (drop 8 u) @ ''-'' @ take 4 (drop 12 u) @ ''-''
           @ take 4 (drop 16 u) @ ''-'' @ drop 20 u"

text \<open>
  Two uevent datagrams with the 40-byte header of libudev (signature, magic, header size,
  payload offset 40 at byte 16, padding), one for the block device \<open>sdb\<close> and one for a
  network interface, and collaborators for decoding them: \<open>Atoi\<close> knows the two numbers
  in them, the constructors of package \<open>udev\<close> hand back the device path.
\<close>

definition uevent_header :: string where
  "uevent_header = libudev @ [CHR 0xfe, CHR 0xed, CHR 0xca, CHR 0xfe] @ [CHR 0x28, CHR 0x00, CHR 0x00, CHR 0x00]
     @ [CHR 0x28] @ replicate 23 (CHR 0x00)"

definition block_event :: string where
  "block_event = uevent_header @ ''ACTION=remove'' @ [CHR 0x00] @ ''DEVPATH=/block/sdb'' @ [CHR 0x00]
     @ ''SUBSYSTEM=block'' @ [CHR 0x00] @ ''MAJOR=8'' @ [CHR 0x00] @ ''MINOR=16'' @ [CHR 0x00]"

definition net_event :: string where
  "net_event = uevent_header @ ''ACTION=remove'' @ [CHR 0x00] @ ''DEVPATH=/net/eth0'' @ [CHR 0x00]
     @ ''SUBSYSTEM=net'' @ [CHR 0x00]"

definition test_udev_env :: "string udev_env" where
  "test_udev_env = \<lparr>
     Atoi = (\<lambda>s. if s = ''8'' then Ok 8 else if s = ''16'' then Ok 16 else Err (ErrExternal ''strconv.Atoi'')),
     ReadRunUdevData = (\<lambda>major minor. Ok ''/run/udev/data''),
     EventMapToUdevData = (\<lambda>eventMap. Ok (map_get eventMap ''DEVPATH''))\<rparr>"

text \<open>
  The Drive after a release, in the words of section 8: the Volume's capacity added to
  the free capacity and taken from the allocated capacity, the finalizer of the Volume's
  name gone, and the status \<open>Ready\<close> when the data-protection marker is all that remains.
\<close>

definition released_drive :: "env \<Rightarrow> drive \<Rightarrow> string \<Rightarrow> int64 \<Rightarrow> drive" where
  "released_drive env d volumeName capacity =
     d\<lparr>DriveStatus :=
         (if filter (\<lambda>f. f \<noteq> DirectCSIDriveFinalizerPrefix env @ volumeName) (Finalizers d)
               = [DirectCSIDriveFinalizerDataProtection env]
          then DriveStatusReady else DriveStatus d),
       Finalizers := filter (\<lambda>f. f \<noteq> DirectCSIDriveFinalizerPrefix env @ volumeName) (Finalizers d),
       FreeCapacity := FreeCapacity d + capacity,
       AllocatedCapacity := AllocatedCapacity d - capacity\<rparr>"

text \<open>
  The objects of \<open>TestListener\<close> (pkg/listener2/listener\_test.go): a drive of 100 MB, half
  of it allocated to two volumes of 20 MB and 30 MB, and the 20 MB volume, staged and not
  published; then the same volume marked for deletion, and marked for deletion while
  published.
\<close>

definition test_drive :: drive where
  "test_drive = zero_drive\<lparr>
     Name := ''test_drive'',
     Finalizers := [''direct.csi.min.io/data-protection'',
                    ''direct.csi.min.io.volume/test_volume_20MB'',
                    ''direct.csi.min.io.volume/test_volume_30MB''],
     NodeName := ''test-node'',
     DriveStatus := DriveStatusInUse,
     FreeCapacity := 52428800,
     AllocatedCapacity := 52428800,
     TotalCapacity := 104857600\<rparr>"

definition test_volume :: volume where
  "test_volume = \<lparr>
     vol_Name = ''test_volume_20MB'',
     vol_Finalizers = [''direct.csi.min.io/purge-protection''],
     vol_DeletionTimestamp = None,
     vol_Drive = ''test_drive'',
     vol_HostPath = ''hostpath'',
     vol_TotalCapacity = 20971520,
     vol_Conditions =
       [\<lparr>cond_Type = ''Staged'', cond_Status = ''True''\<rparr>,
        \<lparr>cond_Type = ''Published'', cond_Status = ''False''\<rparr>,
        \<lparr>cond_Type = ''Ready'', cond_Status = ''True''\<rparr>]\<rparr>"

definition deleted_volume :: volume where
  "deleted_volume = test_volume\<lparr>vol_DeletionTimestamp := Some 1\<rparr>"

definition published_volume :: volume where
  "published_volume = test_volume\<lparr>
     vol_DeletionTimestamp := Some 1,
     vol_Conditions :=
       [\<lparr>cond_Type = ''Staged'', cond_Status = ''True''\<rparr>,
        \<lparr>cond_Type = ''Published'', cond_Status = ''True''\<rparr>,
        \<lparr>cond_Type = ''Ready'', cond_Status = ''True''\<rparr>]\<rparr>"

definition test_cluster :: cluster where
  "test_cluster = \<lparr>
     cl_drives = [''test_drive'' \<mapsto> test_drive],
     cl_volumes = [''test_volume_20MB'' \<mapsto> test_volume],
     cl_hostfs = {''hostpath''},
     cl_calls = []\<rparr>"

text \<open>
  "The field-by-field diff finds no difference": each comparison of the field part of
  \<open>update\<close>, in the order of the source, finds the recorded value equal to the observed
  one.
\<close>

definition fields_unchanged :: "env \<Rightarrow> device \<Rightarrow> drive \<Rightarrow> bool" where
  "fields_unchanged env device drive =
     (FSTypeEqual env (Filesystem drive) (dev_FSType device)
      \<and> TotalCapacity drive = ucast (dev_Size device)
      \<and> LogicalBlockSize drive = ucast (dev_LogicalBlockSize device)
      \<and> ModelNumber drive = dev_Model device
      \<and> PartitionNum drive = dev_Partition device
      \<and> Path drive = ''/dev/'' @ dev_Name device
      \<and> PhysicalBlockSize drive = ucast (dev_PhysicalBlockSize device)
      \<and> RootPartition drive = dev_Name device
      \<and> SerialNumber drive = dev_Serial device
      \<and> FilesystemUUID drive = dev_FSUUID device
      \<and> PartitionUUID drive = dev_PartUUID device
      \<and> MajorNumber drive = ucast (dev_Major device)
      \<and> MinorNumber drive = ucast (dev_Minor device)
      \<and> UeventSerial drive = dev_UeventSerial device
      \<and> UeventFSUUID drive = dev_UeventFSUUID device
      \<and> WWID drive = dev_WWID device
      \<and> Vendor drive = dev_Vendor device
      \<and> DMName drive = dev_DMName device
      \<and> DMUUID drive = dev_DMUUID device
      \<and> MDUUID drive = dev_MDUUID device
      \<and> PartTableUUID drive = dev_PTUUID device
      \<and> ptTypeEqual env (PartTableType drive) (dev_PTType device)
      \<and> Virtual drive = dev_Virtual device
      \<and> ReadOnly drive = dev_ReadOnly device
      \<and> Partitioned drive = dev_Partitioned device
      \<and> SwapOn drive = dev_SwapOn device
      \<and> Master drive = dev_Master device)"

text \<open>
  A drive in use on \<open>/dev/sdb\<close>, mounted under the managed mount root; a device report that
  agrees with it in every field; the same report with the device grown to 200 MB; and the
  same report with another model, serial, WWID and vendor.
\<close>

definition inuse_drive :: drive where
  "inuse_drive = zero_drive\<lparr>
     Name := ''D1'', Path := ''/dev/sdb'', DriveStatus := DriveStatusInUse,
     TotalCapacity := 104857600, AllocatedCapacity := 52428800, FreeCapacity := 52428800,
     LogicalBlockSize := 512, PhysicalBlockSize := 512, MajorNumber := 8, MinorNumber := 16,
     RootPartition := ''sdb'', ModelNumber := ''M1'', SerialNumber := ''S1'', WWID := ''W1'',
     Vendor := ''V1'', Filesystem := ''xfs'', FilesystemUUID := ''U1'', UeventFSUUID := ''U1'',
     Mountpoint := ''/var/lib/direct-csi/mnt/U1''\<rparr>"

definition same_device :: device where
  "same_device = zero_device\<lparr>
     dev_Name := ''sdb'', dev_Major := 8, dev_Minor := 16, dev_Size := 104857600,
     dev_LogicalBlockSize := 512, dev_PhysicalBlockSize := 512, dev_Model := ''M1'',
     dev_Serial := ''S1'', dev_WWID := ''W1'', dev_Vendor := ''V1'', dev_FSType := ''xfs'',
     dev_FSUUID := ''U1'', dev_UeventFSUUID := ''U1'',
     dev_FirstMountPoint := ''/var/lib/direct-csi/mnt/U1''\<rparr>"

definition grown_device :: device where
  "grown_device = same_device\<lparr>dev_Size := 209715200\<rparr>"

definition relabelled_device :: device where
  "relabelled_device = same_device\<lparr>
     dev_Model := ''M2'', dev_Serial := ''S2'', dev_WWID := ''W2'', dev_Vendor := ''V2''\<rparr>"

definition test_handler :: driveEventHandler where
  "test_handler = \<lparr>nodeID = ''test-node'', topology = None\<rparr>"

section \<open>The identity matcher: results\<close>

lemma immutable_outcome:
  "outcome (immutablePropertyMatcher alpha beta) = immutable_table beta alpha"
  by (simp add: immutablePropertyMatcher_def immutable_table_def)

lemma fs_outcome:
  "outcome (fsPropertyMatcher alpha beta) = fs_table beta alpha"
  by (auto simp add: fsPropertyMatcher_def fs_table_def)

lemma size_outcome:
  "outcome (sizeMatcher alpha beta) =
     (if beta \<noteq> 0 \<and> alpha = beta then Match else Inconclusive)"
  by (auto simp add: sizeMatcher_def)

text \<open>
  C1, as amended. For every Device and Drive, the matchers of the ordered list decide as
  follows, in the order of the list. The partition-number matcher always decides, by
  equality. The matchers of hardware identity (event serial, WWID, model, vendor,
  partition UUID, device-mapper UUID, raid UUID, serial) are inconclusive exactly when
  the Drive records no value; once a value is recorded they match when the Device shows
  the same value and do not match otherwise, an empty Device value included. The two
  filesystem-UUID matchers match when a value is recorded and the Device shows the same
  one, and are inconclusive in every other case, unequal values included. The
  block-size matcher behaves like the filesystem ones, with zero for empty.
\<close>

theorem matchers_decision_tables:
  "map (\<lambda>m. outcome (m device drive)) matchers =
     [if PartitionNum drive = dev_Partition device then Match else NoMatch,
      immutable_table (UeventSerial drive) (dev_UeventSerial device),
      immutable_table (WWID drive) (dev_WWID device),
      immutable_table (ModelNumber drive) (dev_Model device),
      immutable_table (Vendor drive) (dev_Vendor device),
      immutable_table (PartitionUUID drive) (dev_PartUUID device),
      immutable_table (DMUUID drive) (dev_DMUUID device),
      immutable_table (MDUUID drive) (dev_MDUUID device),
      fs_table (UeventFSUUID drive) (dev_UeventFSUUID device),
      fs_table (FilesystemUUID drive) (dev_FSUUID device),
      immutable_table (SerialNumber drive) (dev_Serial device),
      if LogicalBlockSize drive \<noteq> 0 \<and> ucast (dev_LogicalBlockSize device) = LogicalBlockSize drive
      then Match else Inconclusive]"
  unfolding matchers_def
  by (simp add: partitionNumberMatcher_def ueventSerialNumberMatcher_def wwidMatcher_def
      modelNumberMatcher_def vendorMatcher_def partitionUUIDMatcher_def dmUUIDMatcher_def
      mdUUIDMatcher_def ueventFSUUIDMatcher_def fsUUIDMatcher_def serialNumberMatcher_def
      logicalBlocksizeMatcher_def immutable_outcome fs_outcome size_outcome)

text \<open>
  C1 as the specification states it fails twice. A Drive that records the WWID \<open>W1\<close>
  against a Device that shows none: the table says inconclusive, \<open>wwidMatcher\<close> decides
  against. A Drive that records the filesystem UUID \<open>B\<close> against a Device that shows
  \<open>A\<close>: the table says no-match, \<open>fsUUIDMatcher\<close> is inconclusive.
\<close>

theorem truth_table_counterexample:
  "outcome (wwidMatcher (zero_device\<lparr>dev_WWID := []\<rparr>) (zero_drive\<lparr>WWID := ''W1''\<rparr>))
     \<noteq> spec_truth_table (WWID (zero_drive\<lparr>WWID := ''W1''\<rparr>)) (dev_WWID (zero_device\<lparr>dev_WWID := []\<rparr>))
   \<and> outcome (fsUUIDMatcher (zero_device\<lparr>dev_FSUUID := ''A''\<rparr>) (zero_drive\<lparr>FilesystemUUID := ''B''\<rparr>))
     \<noteq> spec_truth_table (FilesystemUUID (zero_drive\<lparr>FilesystemUUID := ''B''\<rparr>))
          (dev_FSUUID (zero_device\<lparr>dev_FSUUID := ''A''\<rparr>))"
  by (simp add: wwidMatcher_def fsUUIDMatcher_def immutablePropertyMatcher_def
      fsPropertyMatcher_def spec_truth_table_def)

lemma match_drives_nil:
  "match_drives ms device drives (md, None) =
     (if drives = [] then Ok (md, None) else Panic NilMapAssignment)"
  by (cases drives) (simp_all add: map_assign_def split: prod.splits)

text \<open>
  C4. Whatever the matcher list, the loop of \<open>getMatchingDrives\<close> started on the nil map
  faults with a nil-map assignment as soon as there is a first drive, and returns its
  zero values on the empty list; so do \<open>getMatchingDrives\<close> itself and, through it,
  \<open>runMatcher\<close>, which classifies no non-empty candidate list.
\<close>

theorem getMatchingDrives_nil_map_write:
  "match_drives ms device drives ([], None) =
     (if drives = [] then Ok ([], None) else Panic NilMapAssignment)
   \<and> getMatchingDrives device drives =
     (if drives = [] then Ok ([], None) else Panic NilMapAssignment)
   \<and> runMatcher device drives =
     (if drives = [] then Err ErrNoMatchFound else Panic NilMapAssignment)"
  by (simp add: runMatcher_def getMatchingDrives_def match_drives_nil)

text \<open>
  C2 on the code. A Device with WWID \<open>W1\<close> and model \<open>M1\<close> against one Drive that records
  the same two values, and against two Drives identical in every identity property:
  \<open>runMatcher\<close> returns neither the Drive nor the ambiguity error, it faults in
  \<open>getMatchingDrives\<close>. Only the empty candidate list gets its answer.
\<close>

theorem runMatcher_faults_on_candidates:
  "runMatcher (zero_device\<lparr>dev_Name := ''sdb'', dev_WWID := ''W1'', dev_Model := ''M1''\<rparr>)
     [zero_drive\<lparr>Name := ''D1'', WWID := ''W1'', ModelNumber := ''M1''\<rparr>]
     = Panic NilMapAssignment
   \<and> runMatcher (zero_device\<lparr>dev_Name := ''sdb'', dev_WWID := ''W1'', dev_Model := ''M1''\<rparr>)
     [zero_drive\<lparr>Name := ''D1'', WWID := ''W1'', ModelNumber := ''M1''\<rparr>,
      zero_drive\<lparr>Name := ''D2'', WWID := ''W1'', ModelNumber := ''M1''\<rparr>]
     = Panic NilMapAssignment
   \<and> runMatcher (zero_device\<lparr>dev_Name := ''sdb'', dev_WWID := ''W1'', dev_Model := ''M1''\<rparr>) []
     = Err ErrNoMatchFound"
  by (simp add: runMatcher_def getMatchingDrives_def match_drives_nil)

section \<open>The wire decoder and the listener: results\<close>

text \<open>
  C8 on the code. The signature alone is a buffer of 8 bytes, shorter than
  \<open>minMsgLen\<close>: \<open>parse\<close> accepts the signature and faults reading the magic. The
  signature and the magic, 12 bytes: \<open>parse\<close> faults reading the offset at byte 16.
  Neither buffer gets an error.
\<close>

theorem parse_short_buffer_faults:
  "length libudev < minMsgLen
   \<and> parse libudev = Panic IndexOutOfRange
   \<and> length (libudev @ [CHR 0xfe, CHR 0xed, CHR 0xca, CHR 0xfe]) < minMsgLen
   \<and> parse (libudev @ [CHR 0xfe, CHR 0xed, CHR 0xca, CHR 0xfe]) = Panic IndexOutOfRange"
  by (simp add: parse_def libudev_def minMsgLen_def HasPrefix_def BigEndian_Uint32_def
      libudevMagic_def)

text \<open>
  From 17 bytes on every index of \<open>parse\<close> is in range, and each of the three
  failures (no signature, another magic, an offset of 16 or less or beyond the length)
  gets its own error and no map.
\<close>

lemma parse_rejects_malformed:
  assumes "length msg > 16"
  shows "(\<not> HasPrefix msg libudev \<longrightarrow> parse msg = Err ErrSignatureNotFound)
   \<and> (HasPrefix msg libudev \<and> BigEndian_Uint32 (drop 8 msg) \<noteq> Ok libudevMagic
        \<longrightarrow> (\<exists>got. parse msg = Err (ErrMagicMismatch got)))
   \<and> (HasPrefix msg libudev \<and> BigEndian_Uint32 (drop 8 msg) = Ok libudevMagic
        \<and> of_char (msg ! 16) \<le> (16::nat)
        \<longrightarrow> parse msg = Err (ErrOffsetTooSmall (of_char (msg ! 16))))
   \<and> (HasPrefix msg libudev \<and> BigEndian_Uint32 (drop 8 msg) = Ok libudevMagic
        \<and> of_char (msg ! 16) > length msg
        \<longrightarrow> parse msg = Err (ErrOffsetBeyondLength (of_char (msg ! 16)) (length msg)))"
  using assms by (auto simp add: parse_def BigEndian_Uint32_def Let_def)

text \<open>
  The lemma at 17 bytes without the signature, and at the 40-byte header with its offset
  byte set to 16 and to 41.
\<close>

lemma parse_rejects_malformed_witness:
  "length (replicate 17 (CHR ''x'')) > 16
   \<and> \<not> HasPrefix (replicate 17 (CHR ''x'')) libudev
   \<and> parse (replicate 17 (CHR ''x'')) = Err ErrSignatureNotFound
   \<and> parse (uevent_header[16 := CHR 0x10]) = Err (ErrOffsetTooSmall 16)
   \<and> parse (uevent_header[16 := CHR 0x29]) = Err (ErrOffsetBeyondLength 41 40)"
proof -
  have l: "length (replicate 17 (CHR ''x'')) > 16"
    by simp
  have n: "\<not> HasPrefix (replicate 17 (CHR ''x'')) libudev"
    by (simp add: HasPrefix_def libudev_def numeral_eq_Suc)
  have 1: "parse (replicate 17 (CHR ''x'')) = Err ErrSignatureNotFound"
    using parse_rejects_malformed [OF l] n by blast
  have 2: "parse (uevent_header[16 := CHR 0x10]) = Err (ErrOffsetTooSmall 16)"
    by (simp add: parse_def uevent_header_def libudev_def HasPrefix_def BigEndian_Uint32_def
        libudevMagic_def)
  have 3: "parse (uevent_header[16 := CHR 0x29]) = Err (ErrOffsetBeyondLength 41 40)"
    by (simp add: parse_def uevent_header_def libudev_def HasPrefix_def BigEndian_Uint32_def
        libudevMagic_def)
  show ?thesis
    using l n 1 2 3 by blast
qed

lemma parse_block_event:
  "parse block_event =
     Ok [''ACTION'' \<mapsto> ''remove'', ''DEVPATH'' \<mapsto> ''/block/sdb'', ''SUBSYSTEM'' \<mapsto> ''block'',
         ''MAJOR'' \<mapsto> ''8'', ''MINOR'' \<mapsto> ''16'']"
  by (simp add: parse_def block_event_def uevent_header_def libudev_def HasPrefix_def
      BigEndian_Uint32_def libudevMagic_def SplitN2_def)

lemma parse_net_event:
  "parse net_event =
     Ok [''ACTION'' \<mapsto> ''remove'', ''DEVPATH'' \<mapsto> ''/net/eth0'', ''SUBSYSTEM'' \<mapsto> ''net'']"
  by (simp add: parse_def net_event_def uevent_header_def libudev_def HasPrefix_def
      BigEndian_Uint32_def libudevMagic_def SplitN2_def)

lemma parseUdevData_block_is_non_device:
  "parse buf = Ok eventMap \<Longrightarrow> map_get eventMap ''SUBSYSTEM'' = ''block'' \<Longrightarrow>
   listener_parseUdevData env buf = Err ErrNonDeviceEvent"
  by (simp add: listener_parseUdevData_def)

text \<open>
  The read loop of \<open>getNextDeviceUEvent\<close>: a buffer that decodes to the
  not-a-block-device signal is skipped and the loop goes on with the next read; any other
  decode error ends the loop and is returned, as is an error of the read itself; a
  decoded event is returned.
\<close>

lemma getNextDeviceUEvent_loop:
  "(listener_parseUdevData env buf = Err ErrNonDeviceEvent \<longrightarrow>
      listener_getNextDeviceUEvent env (Ok buf # reads) = listener_getNextDeviceUEvent env reads)
   \<and> (listener_parseUdevData env buf = Err e \<and> e \<noteq> ErrNonDeviceEvent \<longrightarrow>
      listener_getNextDeviceUEvent env (Ok buf # reads) = Some (Err e, reads))
   \<and> (listener_parseUdevData env buf = Ok udevData \<longrightarrow>
      listener_getNextDeviceUEvent env (Ok buf # reads) = Some (Ok udevData, reads))
   \<and> listener_getNextDeviceUEvent env (Err e # reads) = Some (Err e, reads)"
  by simp

text \<open>
  C3 on the code. The datagram of the block device \<open>sdb\<close> decodes to the
  not-a-block-device signal, and the read loop skips it: with nothing else to read it
  stays blocked, with the network datagram behind it it delivers that one. The
  comparison in \<open>parseUdevData\<close> is the wrong way round.
\<close>

theorem parseUdevData_block_event_skipped:
  "listener_parseUdevData test_udev_env block_event = Err ErrNonDeviceEvent
   \<and> listener_getNextDeviceUEvent test_udev_env [Ok block_event] = None
   \<and> listener_parseUdevData test_udev_env net_event = Ok ''/net/eth0''
   \<and> listener_getNextDeviceUEvent test_udev_env [Ok block_event, Ok net_event]
       = Some (Ok ''/net/eth0'', [])"
proof -
  have b: "listener_parseUdevData test_udev_env block_event = Err ErrNonDeviceEvent"
    by (simp add: listener_parseUdevData_def parse_block_event map_get_def)
  have n: "listener_parseUdevData test_udev_env net_event = Ok ''/net/eth0''"
    by (simp add: listener_parseUdevData_def parse_net_event map_get_def test_udev_env_def
        action_add_def action_change_def action_remove_def)
  show ?thesis by (simp add: b n)
qed

text \<open>
  The loop at a buffer without the signature, followed by the network datagram: the
  decode error is returned and the datagram stays unread.
\<close>

lemma getNextDeviceUEvent_loop_witness:
  "listener_parseUdevData test_udev_env (replicate 17 (CHR ''x'')) = Err ErrSignatureNotFound
   \<and> ErrSignatureNotFound \<noteq> ErrNonDeviceEvent
   \<and> listener_getNextDeviceUEvent test_udev_env [Ok (replicate 17 (CHR ''x'')), Ok net_event]
       = Some (Err ErrSignatureNotFound, [Ok net_event])"
proof -
  have p: "parse (replicate 17 (CHR ''x'')) = Err ErrSignatureNotFound"
    by (simp add: parse_def HasPrefix_def libudev_def numeral_eq_Suc)
  have d: "listener_parseUdevData test_udev_env (replicate 17 (CHR ''x'')) = Err ErrSignatureNotFound"
    by (simp add: listener_parseUdevData_def p)
  have n: "ErrSignatureNotFound \<noteq> ErrNonDeviceEvent"
    by simp
  show ?thesis
    using getNextDeviceUEvent_loop [where env = test_udev_env and buf = "replicate 17 (CHR ''x'')"
        and e = ErrSignatureNotFound and reads = "[Ok net_event]"] d n
    by blast
qed

section \<open>UUID normalization: results\<close>

lemma strip_append: "strip_separators (a @ b) = strip_separators a @ strip_separators b"
  by (simp add: strip_separators_def)

lemma strip_dash: "strip_separators (CHR ''-'' # b) = strip_separators b"
  by (simp add: strip_separators_def)

lemma strip_no_separator: "no_separator s \<Longrightarrow> strip_separators s = s"
  by (induction s) (auto simp: no_separator_def strip_separators_def)

lemma no_separator_strip: "no_separator (strip_separators s)"
  by (auto simp: no_separator_def strip_separators_def)

lemma no_separator_take: "no_separator s \<Longrightarrow> no_separator (take n s)"
  by (auto simp: no_separator_def dest: in_set_takeD)

lemma no_separator_drop: "no_separator s \<Longrightarrow> no_separator (drop n s)"
  by (auto simp: no_separator_def dest: in_set_dropD)

lemma regroup_pieces:
  "take 8 u @ take 4 (drop 8 u) @ take 4 (drop 12 u) @ take 4 (drop 16 u) @ drop 20 u = u"
proof -
  have "take 4 (drop 16 u) @ drop 20 u = drop 16 u"
    using append_take_drop_id [of 4 "drop 16 u"] by simp
  moreover have "take 4 (drop 12 u) @ drop 16 u = drop 12 u"
    using append_take_drop_id [of 4 "drop 12 u"] by simp
  moreover have "take 4 (drop 8 u) @ drop 12 u = drop 8 u"
    using append_take_drop_id [of 4 "drop 8 u"] by simp
  ultimately show ?thesis by simp
qed

lemma strip_dashed: "no_separator u \<Longrightarrow> strip_separators (dashed u) = u"
  by (simp add: dashed_def strip_append strip_dash strip_no_separator no_separator_take
      no_separator_drop regroup_pieces)

lemma normalize_long:
  "length (strip_separators s) > 20 \<Longrightarrow> normalizeUUID s = dashed (strip_separators s)"
  by (simp add: normalizeUUID_def dashed_def Let_def)

lemma normalize_short:
  "length (strip_separators s) \<le> 20 \<Longrightarrow> normalizeUUID s = s"
  by (simp add: normalizeUUID_def Let_def)

lemma normalize_twice: "normalizeUUID (normalizeUUID s) = normalizeUUID s"
proof (cases "length (strip_separators s) > 20")
  case True
  let ?u = "strip_separators s"
  have "strip_separators (dashed ?u) = ?u"
    by (rule strip_dashed) (rule no_separator_strip)
  with True show ?thesis
    by (simp add: normalize_long)
next
  case False
  then show ?thesis by (simp add: normalize_short)
qed

lemma dashed_of_pieces:
  assumes "length a = 8" "length b = 4" "length c = 4" "length d = 4"
  shows "dashed (a @ b @ c @ d @ e) = a @ ''-'' @ b @ ''-'' @ c @ ''-'' @ d @ ''-'' @ e"
  using assms by (simp add: dashed_def)

lemma canonical_split:
  assumes "length s = 36"
  shows "s = take 8 s @ [s ! 8] @ take 4 (drop 9 s) @ [s ! 13] @ take 4 (drop 14 s) @ [s ! 18]
           @ take 4 (drop 19 s) @ [s ! 23] @ drop 24 s"
proof -
  have a: "s = take 8 s @ [s ! 8] @ drop 9 s"
    using assms id_take_nth_drop [of 8 s] by simp
  have b: "drop 9 s = take 4 (drop 9 s) @ [s ! 13] @ drop 14 s"
    using assms id_take_nth_drop [of 4 "drop 9 s"] by simp
  have c: "drop 14 s = take 4 (drop 14 s) @ [s ! 18] @ drop 19 s"
    using assms id_take_nth_drop [of 4 "drop 14 s"] by simp
  have d: "drop 19 s = take 4 (drop 19 s) @ [s ! 23] @ drop 24 s"
    using assms id_take_nth_drop [of 4 "drop 19 s"] by simp
  show ?thesis
    using a b c d by metis
qed

lemma canonical_fixed:
  assumes "canonical_uuid s"
  shows "normalizeUUID s = s"
proof -
  define a where "a = take 8 s"
  define b where "b = take 4 (drop 9 s)"
  define c where "c = take 4 (drop 14 s)"
  define d where "d = take 4 (drop 19 s)"
  define e where "e = drop 24 s"
  from assms have len: "length s = 36" by (simp add: canonical_uuid_def)
  from assms have seps:
    "no_separator a" "no_separator b" "no_separator c" "no_separator d" "no_separator e"
    by (simp_all add: canonical_uuid_def a_def b_def c_def d_def e_def)
  from assms have dashes:
    "s ! 8 = CHR ''-''" "s ! 13 = CHR ''-''" "s ! 18 = CHR ''-''" "s ! 23 = CHR ''-''"
    by (simp_all add: canonical_uuid_def)
  have s: "s = a @ ''-'' @ b @ ''-'' @ c @ ''-'' @ d @ ''-'' @ e"
    using canonical_split [OF len] dashes by (simp add: a_def b_def c_def d_def e_def)
  have lens: "length a = 8" "length b = 4" "length c = 4" "length d = 4" "length e = 12"
    using len by (simp_all add: a_def b_def c_def d_def e_def)
  have strip: "strip_separators s = a @ b @ c @ d @ e"
    by (subst s) (simp add: strip_append strip_dash strip_no_separator seps)
  have "length (strip_separators s) > 20"
    using lens by (simp add: strip)
  then have "normalizeUUID s = dashed (a @ b @ c @ d @ e)"
    by (simp add: normalize_long strip)
  also have "\<dots> = s"
    using lens s by (simp add: dashed_of_pieces)
  finally show ?thesis .
qed

lemma normalize_grouping:
  assumes "length (strip_separators s) > 20"
  shows "\<exists>a b c d e. normalizeUUID s = a @ ''-'' @ b @ ''-'' @ c @ ''-'' @ d @ ''-'' @ e
          \<and> a @ b @ c @ d @ e = strip_separators s
          \<and> length a = 8 \<and> length b = 4 \<and> length c = 4 \<and> length d = 4
          \<and> length e = length (strip_separators s) - 20"
proof -
  let ?u = "strip_separators s"
  have "normalizeUUID s = take 8 ?u @ ''-'' @ take 4 (drop 8 ?u) @ ''-'' @ take 4 (drop 12 ?u) @ ''-''
           @ take 4 (drop 16 ?u) @ ''-'' @ drop 20 ?u"
    using assms by (simp add: normalize_long dashed_def)
  moreover have "take 8 ?u @ take 4 (drop 8 ?u) @ take 4 (drop 12 ?u) @ take 4 (drop 16 ?u) @ drop 20 ?u = ?u"
    by (rule regroup_pieces)
  moreover have "length (take 8 ?u) = 8" "length (take 4 (drop 8 ?u)) = 4"
    "length (take 4 (drop 12 ?u)) = 4" "length (take 4 (drop 16 ?u)) = 4"
    "length (drop 20 ?u) = length ?u - 20"
    using assms by simp_all
  ultimately show ?thesis by blast
qed

lemma dashed_grouped:
  assumes "length u = 32"
  shows "grouped_8_4_4_4_12 u (dashed u)"
proof -
  define a where "a = take 8 u"
  define b where "b = take 4 (drop 8 u)"
  define c where "c = take 4 (drop 12 u)"
  define d where "d = take 4 (drop 16 u)"
  define e where "e = drop 20 u"
  have lens: "length a = 8" "length b = 4" "length c = 4" "length d = 4" "length e = 12"
    using assms by (simp_all add: a_def b_def c_def d_def e_def)
  have u: "a @ b @ c @ d @ e = u"
    unfolding a_def b_def c_def d_def e_def by (rule regroup_pieces)
  have out: "dashed u = a @ ''-'' @ b @ ''-'' @ c @ ''-'' @ d @ ''-'' @ e"
    by (simp add: dashed_def a_def b_def c_def d_def e_def)
  show ?thesis
    unfolding out grouped_8_4_4_4_12_def
    using lens u by (simp add: nth_append)
qed

lemma normalize_canonical_grouping:
  assumes "length (strip_separators s) = 32"
  shows "grouped_8_4_4_4_12 (strip_separators s) (normalizeUUID s)"
  using assms dashed_grouped [of "strip_separators s"] by (simp add: normalize_long)

text \<open>
  C10, as amended. For every string: normalizing twice is normalizing once; an
  already-normalized 36-character dashed UUID is returned as it is; when the value
  stripped of colons and dashes has more than 20 characters the result is that stripped
  value with a dash after its 8th, 12th, 16th and 20th character, that is groups of 8, 4,
  4 and 4 characters and a last group of all the rest; when the stripped value has the 32
  characters of a UUID, and only then, this is the canonical 8-4-4-4-12 grouping; and
  when it has 20 or fewer characters the input is returned as it is.
\<close>

theorem normalizeUUID_idempotent:
  "normalizeUUID (normalizeUUID uuid) = normalizeUUID uuid
   \<and> (canonical_uuid uuid \<longrightarrow> normalizeUUID uuid = uuid)
   \<and> (length (strip_separators uuid) > 20 \<longrightarrow>
        (\<exists>a b c d e. normalizeUUID uuid = a @ ''-'' @ b @ ''-'' @ c @ ''-'' @ d @ ''-'' @ e
          \<and> a @ b @ c @ d @ e = strip_separators uuid
          \<and> length a = 8 \<and> length b = 4 \<and> length c = 4 \<and> length d = 4
          \<and> length e = length (strip_separators uuid) - 20))
   \<and> (length (strip_separators uuid) > 20 \<longrightarrow>
        grouped_8_4_4_4_12 (strip_separators uuid) (normalizeUUID uuid)
          = (length (strip_separators uuid) = 32))
   \<and> (length (strip_separators uuid) \<le> 20 \<longrightarrow> normalizeUUID uuid = uuid)"
proof -
  have only32: "grouped_8_4_4_4_12 (strip_separators uuid) (normalizeUUID uuid)
                  \<Longrightarrow> length (strip_separators uuid) = 32"
  proof -
    assume g: "grouped_8_4_4_4_12 (strip_separators uuid) (normalizeUUID uuid)"
    let ?out = "normalizeUUID uuid"
    from g have len: "length ?out = 36"
      and eq: "take 8 ?out @ take 4 (drop 9 ?out) @ take 4 (drop 14 ?out) @ take 4 (drop 19 ?out)
                 @ drop 24 ?out = strip_separators uuid"
      by (simp_all add: grouped_8_4_4_4_12_def)
    have "length (take 8 ?out @ take 4 (drop 9 ?out) @ take 4 (drop 14 ?out) @ take 4 (drop 19 ?out)
                 @ drop 24 ?out) = 32"
      using len by simp
    with eq show ?thesis by simp
  qed
  have grp: "length (strip_separators uuid) > 20 \<longrightarrow>
        grouped_8_4_4_4_12 (strip_separators uuid) (normalizeUUID uuid)
          = (length (strip_separators uuid) = 32)"
    using only32 normalize_canonical_grouping by blast
  show ?thesis
    using normalize_twice canonical_fixed normalize_grouping normalize_short grp by blast
qed

text \<open>
  The theorem at a dashed UUID, at the same UUID in the colon-separated form of a raid
  array, and at a short value.
\<close>

theorem normalizeUUID_idempotent_witness:
  "canonical_uuid ''6e0a1b2c-3d4e-5f60-7182-93a4b5c6d7e8''
   \<and> normalizeUUID ''6e0a1b2c-3d4e-5f60-7182-93a4b5c6d7e8'' = ''6e0a1b2c-3d4e-5f60-7182-93a4b5c6d7e8''
   \<and> length (strip_separators ''6e0a1b2c:3d4e5f60:718293a4:b5c6d7e8'') > 20
   \<and> length (strip_separators ''6e0a1b2c:3d4e5f60:718293a4:b5c6d7e8'') = 32
   \<and> normalizeUUID ''6e0a1b2c:3d4e5f60:718293a4:b5c6d7e8'' = ''6e0a1b2c-3d4e-5f60-7182-93a4b5c6d7e8''
   \<and> grouped_8_4_4_4_12 (strip_separators ''6e0a1b2c:3d4e5f60:718293a4:b5c6d7e8'')
         (normalizeUUID ''6e0a1b2c:3d4e5f60:718293a4:b5c6d7e8'')
   \<and> normalizeUUID (normalizeUUID ''6e0a1b2c:3d4e5f60:718293a4:b5c6d7e8'')
       = normalizeUUID ''6e0a1b2c:3d4e5f60:718293a4:b5c6d7e8''
   \<and> length (strip_separators ''ab:cd'') \<le> 20
   \<and> normalizeUUID ''ab:cd'' = ''ab:cd''"
proof -
  have c: "canonical_uuid ''6e0a1b2c-3d4e-5f60-7182-93a4b5c6d7e8''"
    by (simp add: canonical_uuid_def no_separator_def)
  have l: "length (strip_separators ''6e0a1b2c:3d4e5f60:718293a4:b5c6d7e8'') > 20"
    by (simp add: strip_separators_def)
  have l32: "length (strip_separators ''6e0a1b2c:3d4e5f60:718293a4:b5c6d7e8'') = 32"
    by (simp add: strip_separators_def)
  have s: "length (strip_separators ''ab:cd'') \<le> 20"
    by (simp add: strip_separators_def)
  have 1: "normalizeUUID ''6e0a1b2c-3d4e-5f60-7182-93a4b5c6d7e8'' = ''6e0a1b2c-3d4e-5f60-7182-93a4b5c6d7e8''"
    using normalizeUUID_idempotent [of "''6e0a1b2c-3d4e-5f60-7182-93a4b5c6d7e8''"] c by blast
  have 2: "normalizeUUID (normalizeUUID ''6e0a1b2c:3d4e5f60:718293a4:b5c6d7e8'')
       = normalizeUUID ''6e0a1b2c:3d4e5f60:718293a4:b5c6d7e8''"
    using normalizeUUID_idempotent [of "''6e0a1b2c:3d4e5f60:718293a4:b5c6d7e8''"] by blast
  have 3: "normalizeUUID ''ab:cd'' = ''ab:cd''"
    using normalizeUUID_idempotent [of "''ab:cd''"] s by blast
  have 4: "normalizeUUID ''6e0a1b2c:3d4e5f60:718293a4:b5c6d7e8'' = ''6e0a1b2c-3d4e-5f60-7182-93a4b5c6d7e8''"
    by (simp add: normalizeUUID_def strip_separators_def)
  have 5: "grouped_8_4_4_4_12 (strip_separators ''6e0a1b2c:3d4e5f60:718293a4:b5c6d7e8'')
         (normalizeUUID ''6e0a1b2c:3d4e5f60:718293a4:b5c6d7e8'')"
    using normalizeUUID_idempotent [of "''6e0a1b2c:3d4e5f60:718293a4:b5c6d7e8''"] l l32 by blast
  show ?thesis
    using c l l32 s 1 2 3 4 5 by blast
qed

text \<open>
  C10 as the specification states it fails. A value of 21 characters has more than 20
  when stripped, so \<open>normalizeUUID\<close> puts the four dashes in; the last group is the one
  character left, and the result is not the canonical 8-4-4-4-12 grouping of the value.
\<close>

theorem normalizeUUID_grouping_counterexample:
  "length (strip_separators ''0123456789abcdefghijk'') > 20
   \<and> normalizeUUID ''0123456789abcdefghijk'' = ''01234567-89ab-cdef-ghij-k''
   \<and> \<not> grouped_8_4_4_4_12 (strip_separators ''0123456789abcdefghijk'')
         (normalizeUUID ''0123456789abcdefghijk'')"
  by (simp add: normalizeUUID_def strip_separators_def grouped_8_4_4_4_12_def)

section \<open>Volume teardown: results\<close>

lemma excludeFinalizer_loop_eq:
  "excludeFinalizer_loop fs finalizer (result, found) =
     (result @ filter (\<lambda>f. f \<noteq> finalizer) fs, found \<or> finalizer \<in> set fs)"
  by (induction fs arbitrary: result found) auto

lemma excludeFinalizer_eq:
  "excludeFinalizer fs finalizer = (filter (\<lambda>f. f \<noteq> finalizer) fs, finalizer \<in> set fs)"
  by (simp add: excludeFinalizer_def excludeFinalizer_loop_eq)

lemma single_iff: "(length xs = 1 \<and> xs ! 0 = x) = (xs = [x])"
  by (cases xs) auto

lemma filter_count: "length (filter (\<lambda>f. f \<noteq> x) xs) + count_list xs x = length xs"
  by (induction xs) auto

lemma releaseVolume_eq:
  assumes "DriveGetFault env driveName = None"
      and "cl_drives c driveName = Some d"
      and "DirectCSIDriveFinalizerPrefix env @ volumeName \<in> set (Finalizers d)"
      and "FreeCapacity d = TotalCapacity d - AllocatedCapacity d"
  shows "VolumeEventHandler_releaseVolume env c driveName volumeName capacity =
           Drives_Update env c (released_drive env d volumeName capacity)"
proof -
  let ?fs = "filter (\<lambda>f. f \<noteq> DirectCSIDriveFinalizerPrefix env @ volumeName) (Finalizers d)"
  have cap: "TotalCapacity d - (FreeCapacity d + capacity) = AllocatedCapacity d - capacity"
    by (simp add: assms(4))
  show ?thesis
  proof (cases "?fs = [DirectCSIDriveFinalizerDataProtection env]")
    case True
    then show ?thesis
      using assms(1-3)
      by (simp add: VolumeEventHandler_releaseVolume_def Drives_Get_def excludeFinalizer_eq
          Let_def cap released_drive_def)
  next
    case False
    then have "\<not> (length ?fs = 1 \<and> ?fs ! 0 = DirectCSIDriveFinalizerDataProtection env)"
      using single_iff [of ?fs "DirectCSIDriveFinalizerDataProtection env"] by blast
    with False show ?thesis
      using assms(1-3)
      by (auto simp add: VolumeEventHandler_releaseVolume_def Drives_Get_def excludeFinalizer_eq
          Let_def cap released_drive_def)
  qed
qed

text \<open>
  C5. A Volume of capacity \<open>capacity\<close> released against the Drive \<open>d\<close> that the store
  holds under \<open>driveName\<close>, whose finalizers contain the one of the Volume's name and
  whose free capacity is its total less its allocated capacity: \<open>releaseVolume\<close>
  submits to the store exactly the Drive of the specification. Its free capacity is
  \<open>F + C\<close> and its allocated capacity \<open>A - C\<close> (in Go's 64-bit arithmetic), and the two
  still add up to the total. As a set of strings the finalizers lose exactly one, the one
  of the Volume's name; as a list they keep every other entry in order (a list that
  repeated the entry would lose each copy). The status is \<open>Ready\<close> exactly when the
  data-protection marker is the one finalizer left, and the recorded status otherwise.
  When the store accepts the write, the Drive is stored under its name and nil is
  returned.
\<close>

theorem releaseVolume_bookkeeping:
  assumes "DriveGetFault env driveName = None"
      and "cl_drives c driveName = Some d"
      and "DirectCSIDriveFinalizerPrefix env @ volumeName \<in> set (Finalizers d)"
      and "FreeCapacity d = TotalCapacity d - AllocatedCapacity d"
  shows "VolumeEventHandler_releaseVolume env c driveName volumeName capacity =
           Drives_Update env c (released_drive env d volumeName capacity)
     \<and> FreeCapacity (released_drive env d volumeName capacity) = FreeCapacity d + capacity
     \<and> AllocatedCapacity (released_drive env d volumeName capacity) = AllocatedCapacity d - capacity
     \<and> FreeCapacity (released_drive env d volumeName capacity)
         = TotalCapacity (released_drive env d volumeName capacity)
           - AllocatedCapacity (released_drive env d volumeName capacity)
     \<and> set (Finalizers (released_drive env d volumeName capacity))
         = set (Finalizers d) - {DirectCSIDriveFinalizerPrefix env @ volumeName}
     \<and> card (set (Finalizers (released_drive env d volumeName capacity))) + 1 = card (set (Finalizers d))
     \<and> length (Finalizers (released_drive env d volumeName capacity))
         + count_list (Finalizers d) (DirectCSIDriveFinalizerPrefix env @ volumeName)
         = length (Finalizers d)
     \<and> DriveStatus (released_drive env d volumeName capacity)
         = (if Finalizers (released_drive env d volumeName capacity) = [DirectCSIDriveFinalizerDataProtection env]
            then DriveStatusReady else DriveStatus d)
     \<and> (DriveUpdateFault env (released_drive env d volumeName capacity) = None \<longrightarrow>
          VolumeEventHandler_releaseVolume env c driveName volumeName capacity =
            (None, c\<lparr>cl_calls := cl_calls c @ [DriveUpdate (released_drive env d volumeName capacity)],
                     cl_drives := (cl_drives c)(Name d \<mapsto> released_drive env d volumeName capacity)\<rparr>))"
proof -
  let ?f = "DirectCSIDriveFinalizerPrefix env @ volumeName"
  let ?r = "released_drive env d volumeName capacity"
  have run: "VolumeEventHandler_releaseVolume env c driveName volumeName capacity = Drives_Update env c ?r"
    using assms by (rule releaseVolume_eq)
  have fin: "Finalizers ?r = filter (\<lambda>f. f \<noteq> ?f) (Finalizers d)"
    by (simp add: released_drive_def)
  have free: "FreeCapacity ?r = FreeCapacity d + capacity"
    by (simp add: released_drive_def)
  have alloc: "AllocatedCapacity ?r = AllocatedCapacity d - capacity"
    by (simp add: released_drive_def)
  have total: "TotalCapacity ?r = TotalCapacity d"
    by (simp add: released_drive_def)
  have inv: "FreeCapacity ?r = TotalCapacity ?r - AllocatedCapacity ?r"
    by (simp add: free alloc total assms(4))
  have sets: "set (Finalizers ?r) = set (Finalizers d) - {?f}"
    by (auto simp add: fin)
  have card: "card (set (Finalizers ?r)) + 1 = card (set (Finalizers d))"
    using assms(3) card_Suc_Diff1 [of "set (Finalizers d)" ?f] by (simp add: sets)
  have len: "length (Finalizers ?r) + count_list (Finalizers d) ?f = length (Finalizers d)"
    by (simp add: fin filter_count)
  have st: "DriveStatus ?r = (if Finalizers ?r = [DirectCSIDriveFinalizerDataProtection env]
            then DriveStatusReady else DriveStatus d)"
    by (simp add: released_drive_def)
  have upd: "DriveUpdateFault env ?r = None \<longrightarrow>
          VolumeEventHandler_releaseVolume env c driveName volumeName capacity =
            (None, c\<lparr>cl_calls := cl_calls c @ [DriveUpdate ?r],
                     cl_drives := (cl_drives c)(Name d \<mapsto> ?r)\<rparr>)"
    by (simp add: run Drives_Update_def released_drive_def)
  show ?thesis
    using run free alloc inv sets card len st upd by blast
qed

lemma released_test_drive:
  "released_drive test_env test_drive ''test_volume_20MB'' 20971520 =
     test_drive\<lparr>Finalizers := [''direct.csi.min.io/data-protection'',
                                ''direct.csi.min.io.volume/test_volume_30MB''],
                 FreeCapacity := 73400320, AllocatedCapacity := 31457280\<rparr>"
  by (simp add: released_drive_def test_env_def test_drive_def zero_drive_def)

text \<open>
  The theorem at the drive of \<open>TestListener\<close>: releasing the 20 MB volume leaves 70 MB
  free and 30 MB allocated, and the finalizers of data protection and of the 30 MB volume.
\<close>

theorem releaseVolume_bookkeeping_witness:
  "DriveGetFault test_env ''test_drive'' = None
   \<and> cl_drives test_cluster ''test_drive'' = Some test_drive
   \<and> DirectCSIDriveFinalizerPrefix test_env @ ''test_volume_20MB'' \<in> set (Finalizers test_drive)
   \<and> FreeCapacity test_drive = TotalCapacity test_drive - AllocatedCapacity test_drive
   \<and> VolumeEventHandler_releaseVolume test_env test_cluster ''test_drive'' ''test_volume_20MB'' 20971520 =
       (None, test_cluster\<lparr>
          cl_calls := [DriveUpdate (test_drive\<lparr>
             Finalizers := [''direct.csi.min.io/data-protection'', ''direct.csi.min.io.volume/test_volume_30MB''],
             FreeCapacity := 73400320, AllocatedCapacity := 31457280\<rparr>)],
          cl_drives := [''test_drive'' \<mapsto> test_drive\<lparr>
             Finalizers := [''direct.csi.min.io/data-protection'', ''direct.csi.min.io.volume/test_volume_30MB''],
             FreeCapacity := 73400320, AllocatedCapacity := 31457280\<rparr>]\<rparr>)"
proof -
  have h1: "DriveGetFault test_env ''test_drive'' = None"
    by (simp add: test_env_def)
  have h2: "cl_drives test_cluster ''test_drive'' = Some test_drive"
    by (simp add: test_cluster_def)
  have h3: "DirectCSIDriveFinalizerPrefix test_env @ ''test_volume_20MB'' \<in> set (Finalizers test_drive)"
    by (simp add: test_env_def test_drive_def zero_drive_def)
  have h4: "FreeCapacity test_drive = TotalCapacity test_drive - AllocatedCapacity test_drive"
    by (simp add: test_drive_def zero_drive_def)
  have ok: "DriveUpdateFault test_env (released_drive test_env test_drive ''test_volume_20MB'' 20971520) = None"
    by (simp add: test_env_def)
  have nm: "Name test_drive = ''test_drive''"
    by (simp add: test_drive_def zero_drive_def)
  have "VolumeEventHandler_releaseVolume test_env test_cluster ''test_drive'' ''test_volume_20MB'' 20971520 =
     (None, test_cluster\<lparr>
        cl_calls := cl_calls test_cluster @ [DriveUpdate (released_drive test_env test_drive ''test_volume_20MB'' 20971520)],
        cl_drives := (cl_drives test_cluster)(Name test_drive \<mapsto> released_drive test_env test_drive ''test_volume_20MB'' 20971520)\<rparr>)"
    using releaseVolume_bookkeeping [OF h1 h2 h3 h4, of 20971520] ok by blast
  then have "VolumeEventHandler_releaseVolume test_env test_cluster ''test_drive'' ''test_volume_20MB'' 20971520 =
       (None, test_cluster\<lparr>
          cl_calls := [DriveUpdate (test_drive\<lparr>
             Finalizers := [''direct.csi.min.io/data-protection'', ''direct.csi.min.io.volume/test_volume_30MB''],
             FreeCapacity := 73400320, AllocatedCapacity := 31457280\<rparr>)],
          cl_drives := [''test_drive'' \<mapsto> test_drive\<lparr>
             Finalizers := [''direct.csi.min.io/data-protection'', ''direct.csi.min.io.volume/test_volume_30MB''],
             FreeCapacity := 73400320, AllocatedCapacity := 31457280\<rparr>]\<rparr>)"
    by (simp add: released_test_drive nm test_cluster_def)
  with h1 h2 h3 h4 show ?thesis by blast
qed

text \<open>
  C6. A Volume marked for deletion that has a \<open>Published\<close> condition of status true:
  \<open>remove\<close> returns its error and the cluster is the one it was given. No path of the
  host is removed, no Drive and no Volume of the store changes, and no \<open>Update\<close> is
  issued.
\<close>

theorem remove_published_rejected:
  assumes "\<not> IsZero (vol_DeletionTimestamp v)"
      and "\<exists>cond \<in> set (vol_Conditions v).
             cond_Type cond = DirectCSIVolumeConditionPublished env \<and> cond_Status cond = ConditionTrue"
  shows "VolumeEventHandler_remove env c v = (Some ErrVolumePublished, c)"
  using assms by (simp add: VolumeEventHandler_remove_def list_ex_iff)

text \<open>The theorem at the 20 MB volume, marked for deletion while published.\<close>

theorem remove_published_rejected_witness:
  "\<not> IsZero (vol_DeletionTimestamp published_volume)
   \<and> (\<exists>cond \<in> set (vol_Conditions published_volume).
         cond_Type cond = DirectCSIVolumeConditionPublished test_env \<and> cond_Status cond = ConditionTrue)
   \<and> VolumeEventHandler_remove test_env test_cluster published_volume = (Some ErrVolumePublished, test_cluster)"
proof -
  have h1: "\<not> IsZero (vol_DeletionTimestamp published_volume)"
    by (simp add: published_volume_def test_volume_def IsZero_def)
  have h2: "\<exists>cond \<in> set (vol_Conditions published_volume).
         cond_Type cond = DirectCSIVolumeConditionPublished test_env \<and> cond_Status cond = ConditionTrue"
    by (simp add: published_volume_def test_volume_def test_env_def ConditionTrue_def)
  show ?thesis
    using remove_published_rejected [OF h1 h2, of test_cluster] h1 h2 by blast
qed

text \<open>
  The first end-to-end scenario of section 8, on the same objects: the volume marked for
  deletion and not published is torn down. Its host directory goes, the Drive ends with
  30 MB allocated, 70 MB free and the two remaining finalizers, and the Volume's
  purge-protection finalizer is cleared.
\<close>

lemma remove_deleted_volume:
  "VolumeEventHandler_remove test_env test_cluster deleted_volume =
     (None, \<lparr>cl_drives = [''test_drive'' \<mapsto> test_drive\<lparr>
                 Finalizers := [''direct.csi.min.io/data-protection'', ''direct.csi.min.io.volume/test_volume_30MB''],
                 FreeCapacity := 73400320, AllocatedCapacity := 31457280\<rparr>],
             cl_volumes = [''test_volume_20MB'' \<mapsto> deleted_volume\<lparr>vol_Finalizers := []\<rparr>],
             cl_hostfs = {},
             cl_calls = [DriveUpdate (test_drive\<lparr>
                 Finalizers := [''direct.csi.min.io/data-protection'', ''direct.csi.min.io.volume/test_volume_30MB''],
                 FreeCapacity := 73400320, AllocatedCapacity := 31457280\<rparr>),
               VolumeUpdate (deleted_volume\<lparr>vol_Finalizers := []\<rparr>)]\<rparr>)"
  by (simp add: VolumeEventHandler_remove_def VolumeEventHandler_releaseVolume_def Drives_Get_def
      Drives_Update_def Volumes_Update_def excludeFinalizer_eq deleted_volume_def test_volume_def
      test_cluster_def test_env_def test_drive_def zero_drive_def IsZero_def ConditionTrue_def Let_def)

section \<open>Drive reconciliation: results\<close>

lemma fold_step: "fold f (x # xs) s = fold f xs (f x s)"
  by simp

lemma fold_done: "fold f [] s = s"
  by simp

lemma field_steps_unchanged:
  assumes "fields_unchanged env device (drv s)"
  shows "fold (\<lambda>step. step env device) field_steps s = s"
  using assms by (simp add: field_steps_def fields_unchanged_def)

text \<open>
  C9, as amended. When every comparison of the field part finds the recorded value equal
  to the observed one, the mount point is the recorded one, and the Drive is in use,
  ready or terminating (or else the status recomputed from the Device is the recorded
  one), \<open>update\<close> returns nil, issues no call to the store, leaves the cluster and the
  Drive object as they were and starts no label rewrite.
\<close>

theorem update_no_difference_no_write:
  assumes "fields_unchanged env device drive"
      and "Mountpoint drive = dev_FirstMountPoint device"
      and "active_status (DriveStatus drive) \<or> NewDriveStatus env device = DriveStatus drive"
  shows "driveEventHandler_update env c device drive =
           \<lparr>ur_err = None, ur_cluster = c, ur_drive = drive, ur_tasks = []\<rparr>"
proof -
  let ?s0 = "\<lparr>drv = drive, updated = False, nameChanged = False, fsUUIDChanged = False\<rparr>"
  have s1: "fold (\<lambda>step. step env device) field_steps ?s0 = ?s0"
    using assms(1) by (simp add: field_steps_unchanged)
  have s2: "sync_Mountpoint env device ?s0 = ?s0"
    using assms(2) by (simp add: sync_Mountpoint_def)
  have s3: "sync_DriveStatus env device ?s0 = ?s0"
    using assms(3) by (auto simp add: sync_DriveStatus_def Let_def)
  show ?thesis
    by (simp add: driveEventHandler_update_def s1 s2 s3 Let_def)
qed

text \<open>
  The theorem at the drive in use on \<open>/dev/sdb\<close> and the device report that agrees with
  it in every field.
\<close>

theorem update_no_difference_no_write_witness:
  "fields_unchanged test_env same_device inuse_drive
   \<and> Mountpoint inuse_drive = dev_FirstMountPoint same_device
   \<and> DriveStatus inuse_drive = DriveStatusInUse
   \<and> driveEventHandler_update test_env empty_cluster same_device inuse_drive =
       \<lparr>ur_err = None, ur_cluster = empty_cluster, ur_drive = inuse_drive, ur_tasks = []\<rparr>"
proof -
  have h1: "fields_unchanged test_env same_device inuse_drive"
    by (simp add: fields_unchanged_def test_env_def same_device_def inuse_drive_def
        zero_device_def zero_drive_def ptTypeEqual_def)
  have h2: "Mountpoint inuse_drive = dev_FirstMountPoint same_device"
    by (simp add: same_device_def inuse_drive_def zero_device_def zero_drive_def)
  have st: "DriveStatus inuse_drive = DriveStatusInUse"
    by (simp add: inuse_drive_def zero_drive_def)
  have h3: "active_status (DriveStatus inuse_drive)
              \<or> NewDriveStatus test_env same_device = DriveStatus inuse_drive"
    by (simp add: st active_status_def)
  show ?thesis
    using update_no_difference_no_write [OF h1 h2 h3, of empty_cluster] h1 h2 st by blast
qed

lemma grown_device_fields:
  "fold (\<lambda>step. step test_env grown_device) field_steps
      \<lparr>drv = inuse_drive, updated = False, nameChanged = False, fsUUIDChanged = False\<rparr>
   = \<lparr>drv = inuse_drive\<lparr>TotalCapacity := 209715200, FreeCapacity := 157286400\<rparr>,
      updated = True, nameChanged = False, fsUUIDChanged = False\<rparr>"
  unfolding field_steps_def
  by (simp del: fold_Cons fold_Nil add: fold_step fold_done ptTypeEqual_def test_env_def
      grown_device_def same_device_def inuse_drive_def zero_device_def zero_drive_def Let_def)

lemma update_grown_device:
  "driveEventHandler_update test_env empty_cluster grown_device inuse_drive =
     \<lparr>ur_err = None,
      ur_cluster = empty_cluster\<lparr>
        cl_calls := [DriveUpdate (inuse_drive\<lparr>TotalCapacity := 209715200, FreeCapacity := 157286400\<rparr>)],
        cl_drives := [''D1'' \<mapsto> inuse_drive\<lparr>TotalCapacity := 209715200, FreeCapacity := 157286400\<rparr>]\<rparr>,
      ur_drive = inuse_drive\<lparr>TotalCapacity := 209715200, FreeCapacity := 157286400\<rparr>,
      ur_tasks = []\<rparr>"
  unfolding driveEventHandler_update_def Let_def grown_device_fields
  by (simp add: sync_Mountpoint_def sync_DriveStatus_def Drives_Update_def active_status_def
      test_env_def grown_device_def same_device_def inuse_drive_def zero_device_def zero_drive_def
      empty_cluster_def)

text \<open>
  C9 as the specification states it fails. The Drive is in use, and the Device report
  shows its filesystem UUID and its mount point unchanged, but the device has grown from
  100 MB to 200 MB: \<open>update\<close> writes the Drive, with the new capacities, to the store.
\<close>

theorem update_writes_on_other_difference:
  "DriveStatus inuse_drive = DriveStatusInUse
   \<and> FilesystemUUID inuse_drive = dev_FSUUID grown_device
   \<and> UeventFSUUID inuse_drive = dev_UeventFSUUID grown_device
   \<and> Mountpoint inuse_drive = dev_FirstMountPoint grown_device
   \<and> cl_calls (ur_cluster (driveEventHandler_update test_env empty_cluster grown_device inuse_drive))
       = [DriveUpdate (inuse_drive\<lparr>TotalCapacity := 209715200, FreeCapacity := 157286400\<rparr>)]"
  by (simp add: update_grown_device)
     (simp add: inuse_drive_def grown_device_def same_device_def zero_drive_def zero_device_def
       empty_cluster_def)

lemma relabelled_device_fields:
  "fold (\<lambda>step. step test_env relabelled_device) field_steps
      \<lparr>drv = inuse_drive, updated = False, nameChanged = False, fsUUIDChanged = False\<rparr>
   = \<lparr>drv = inuse_drive\<lparr>ModelNumber := ''M2'', SerialNumber := ''S2'', WWID := ''W2'', Vendor := ''V2''\<rparr>,
      updated = True, nameChanged = False, fsUUIDChanged = False\<rparr>"
  unfolding field_steps_def
  by (simp del: fold_Cons fold_Nil add: fold_step fold_done ptTypeEqual_def test_env_def
      relabelled_device_def same_device_def inuse_drive_def zero_device_def zero_drive_def Let_def)

lemma update_relabelled_device:
  "driveEventHandler_update test_env empty_cluster relabelled_device inuse_drive =
     \<lparr>ur_err = None,
      ur_cluster = empty_cluster\<lparr>
        cl_calls := [DriveUpdate (inuse_drive\<lparr>ModelNumber := ''M2'', SerialNumber := ''S2'',
                                               WWID := ''W2'', Vendor := ''V2''\<rparr>)],
        cl_drives := [''D1'' \<mapsto> inuse_drive\<lparr>ModelNumber := ''M2'', SerialNumber := ''S2'',
                                             WWID := ''W2'', Vendor := ''V2''\<rparr>]\<rparr>,
      ur_drive = inuse_drive\<lparr>ModelNumber := ''M2'', SerialNumber := ''S2'', WWID := ''W2'', Vendor := ''V2''\<rparr>,
      ur_tasks = []\<rparr>"
  unfolding driveEventHandler_update_def Let_def relabelled_device_fields
  by (simp add: sync_Mountpoint_def sync_DriveStatus_def Drives_Update_def active_status_def
      test_env_def relabelled_device_def same_device_def inuse_drive_def zero_device_def zero_drive_def
      empty_cluster_def)

text \<open>
  \<open>syncDriveStates\<close> fills the five fields of hardware identity only where the Drive
  records nothing, whatever the Device reports.
\<close>

lemma syncDriveStates_fills_only_empty:
  "ModelNumber (driveEventHandler_syncDriveStates env d device drive)
     = (if ModelNumber drive = [] then dev_Model device else ModelNumber drive)
   \<and> SerialNumber (driveEventHandler_syncDriveStates env d device drive)
     = (if SerialNumber drive = [] then dev_Serial device else SerialNumber drive)
   \<and> UeventSerial (driveEventHandler_syncDriveStates env d device drive)
     = (if UeventSerial drive = [] then dev_UeventSerial device else UeventSerial drive)
   \<and> WWID (driveEventHandler_syncDriveStates env d device drive)
     = (if WWID drive = [] then dev_WWID device else WWID drive)
   \<and> Vendor (driveEventHandler_syncDriveStates env d device drive)
     = (if Vendor drive = [] then dev_Vendor device else Vendor drive)"
  by (simp add: driveEventHandler_syncDriveStates_def Let_def)

text \<open>
  \<open>syncDriveStates\<close> at a Drive that records model \<open>M1\<close>, serial \<open>S1\<close>, WWID \<open>W1\<close> and
  vendor \<open>V1\<close> against a Device that reports \<open>M2\<close>, \<open>S2\<close>, \<open>W2\<close> and \<open>V2\<close>: the recorded
  values stay.
\<close>

lemma syncDriveStates_keeps_recorded:
  "ModelNumber (driveEventHandler_syncDriveStates test_env test_handler relabelled_device inuse_drive) = ''M1''
   \<and> SerialNumber (driveEventHandler_syncDriveStates test_env test_handler relabelled_device inuse_drive) = ''S1''
   \<and> WWID (driveEventHandler_syncDriveStates test_env test_handler relabelled_device inuse_drive) = ''W1''
   \<and> Vendor (driveEventHandler_syncDriveStates test_env test_handler relabelled_device inuse_drive) = ''V1''"
  using syncDriveStates_fills_only_empty [of test_env test_handler relabelled_device inuse_drive]
  by (simp add: inuse_drive_def zero_drive_def)

text \<open>
  C7 on the code. The Drive records model \<open>M1\<close>, serial \<open>S1\<close>, WWID \<open>W1\<close> and vendor
  \<open>V1\<close>; the Device reports \<open>M2\<close>, \<open>S2\<close>, \<open>W2\<close> and \<open>V2\<close>. \<open>update\<close> overwrites the four
  recorded values and writes the Drive to the store.
\<close>

theorem update_overwrites_identity:
  "ModelNumber inuse_drive = ''M1'' \<and> SerialNumber inuse_drive = ''S1''
   \<and> WWID inuse_drive = ''W1'' \<and> Vendor inuse_drive = ''V1''
   \<and> ur_drive (driveEventHandler_update test_env empty_cluster relabelled_device inuse_drive)
       = inuse_drive\<lparr>ModelNumber := ''M2'', SerialNumber := ''S2'', WWID := ''W2'', Vendor := ''V2''\<rparr>
   \<and> cl_calls (ur_cluster (driveEventHandler_update test_env empty_cluster relabelled_device inuse_drive))
       = [DriveUpdate (inuse_drive\<lparr>ModelNumber := ''M2'', SerialNumber := ''S2'',
                                     WWID := ''W2'', Vendor := ''V2''\<rparr>)]"
  by (simp add: update_relabelled_device)
     (simp add: inuse_drive_def zero_drive_def empty_cluster_def)

end
